theory Spec2Isabelle
  imports Main "HOL-Library.List_Lexorder" "HOL-Library.Char_ord"
begin

section \<open>The movie booking store\<close>

text \<open>
  The script \<^verbatim>\<open>run_tests_sqlite.py\<close> works on a SQLite file whose schema comes from
  \<^verbatim>\<open>movie_booking_schema_sqlite.sql\<close>. The rows below carry the columns that the
  script's SQL names, under the aliases the query gives the tables (\<open>t\<close>, \<open>h\<close>,
  \<open>m\<close>, \<open>s\<close>, \<open>b\<close>, \<open>bs\<close>). Identifiers, capacities and flags are integers,
  names, dates and times are text. Columns that the query only selects and prints
  (title, language, format, rating, hall name, base price) are carried as the text
  that Python's \<^verbatim>\<open>str\<close> prints for them. \<open>bs.seat_id\<close> may be NULL, because
  \<^verbatim>\<open>COUNT(bs.seat_id)\<close> counts the rows where it is not; the other columns hold a
  value in every row. The tables are lists of rows with no key or reference constraint
  built in: what the query returns is defined on any contents.
\<close>

record theater_row =
  t_theater_id :: int
  t_theater_name :: string

record hall_row =
  h_hall_id :: int
  h_theater_id :: int
  h_hall_name :: string
  h_seating_capacity :: int

record movie_row =
  m_movie_id :: int
  m_title :: string
  m_language :: string
  m_format :: string
  m_rating :: string
  m_is_active :: int

record show_row =
  s_show_id :: int
  s_movie_id :: int
  s_hall_id :: int
  s_show_date :: string
  s_start_time :: string
  s_base_price :: string
  s_is_active :: int

record seat_row =
  st_seat_id :: int
  st_hall_id :: int

record booking_row =
  b_booking_id :: int
  b_show_id :: int
  b_booking_status :: string

record booking_seat_row =
  bs_booking_id :: int
  bs_seat_id :: "int option"

text \<open>
  The store file holds each table or not (a file that \<^verbatim>\<open>sqlite3.connect\<close> has just
  created holds none): a statement on a table that is not there raises
  \<^verbatim>\<open>sqlite3.OperationalError\<close>.
\<close>

record store =
  Theater :: "theater_row list option"
  Movie :: "movie_row list option"
  Hall :: "hall_row list option"
  Seat :: "seat_row list option"
  Show :: "show_row list option"
  Booking :: "booking_row list option"
  Booking_Seat :: "booking_seat_row list option"

definition empty_store :: store where
  "empty_store = \<lparr>Theater = None, Movie = None, Hall = None, Seat = None,
     Show = None, Booking = None, Booking_Seat = None\<rparr>"

section \<open>The SQL operators the P2 query is made of\<close>

definition inner_join :: "'a list \<Rightarrow> 'b list \<Rightarrow> ('a \<Rightarrow> 'b \<Rightarrow> bool) \<Rightarrow> ('a \<times> 'b) list" where
  "inner_join xs ys on = concat (map (\<lambda>x. map (\<lambda>y. (x, y)) (filter (on x) ys)) xs)"

text \<open>A left row with no partner is kept once, with NULL (\<open>None\<close>) for the right side.\<close>

definition left_join :: "'a list \<Rightarrow> 'b list \<Rightarrow> ('a \<Rightarrow> 'b \<Rightarrow> bool) \<Rightarrow> ('a \<times> 'b option) list" where
  "left_join xs ys on =
     concat (map (\<lambda>x. case filter (on x) ys of
                          [] \<Rightarrow> [(x, None)]
                        | y # ms \<Rightarrow> map (\<lambda>y'. (x, Some y')) (y # ms)) xs)"

text \<open>\<^verbatim>\<open>COALESCE(v, 0)\<close>\<close>

definition coalesce0 :: "int option \<Rightarrow> int" where
  "coalesce0 v = (case v of None \<Rightarrow> 0 | Some n \<Rightarrow> n)"

text \<open>
  The derived table \<open>booked_seats\<close>:
  \<^verbatim>\<open>SELECT b.show_id, COUNT(bs.seat_id) AS booked_count
  FROM Booking b INNER JOIN Booking_Seat bs ON b.booking_id = bs.booking_id
  WHERE b.booking_status = 'Confirmed' GROUP BY b.show_id\<close>
  One row for each show id that occurs in the filtered join, with the number of its
  join rows whose seat id is not NULL.
\<close>

record booked_seats_row =
  bk_show_id :: int
  bk_booked_count :: int

definition confirmed_join :: "booking_row list \<Rightarrow> booking_seat_row list \<Rightarrow> (booking_row \<times> booking_seat_row) list" where
  "confirmed_join bookings booking_seats =
     filter (\<lambda>(b, bs). b_booking_status b = ''Confirmed'')
       (inner_join bookings booking_seats (\<lambda>b bs. b_booking_id b = bs_booking_id bs))"

definition booked_seats :: "booking_row list \<Rightarrow> booking_seat_row list \<Rightarrow> booked_seats_row list" where
  "booked_seats bookings booking_seats =
     (let j = confirmed_join bookings booking_seats
      in map (\<lambda>sid. \<lparr>bk_show_id = sid,
                      bk_booked_count =
                        int (length (filter (\<lambda>(b, bs). b_show_id b = sid \<and> bs_seat_id bs \<noteq> None) j))\<rparr>)
             (remdups (map (\<lambda>(b, bs). b_show_id b) j)))"

text \<open>
  SQLite's integers have 64 bits. A subtraction of two integers whose result does not
  fit gives a REAL instead, the difference of the two operands taken as doubles; the
  model keeps the operands and does not compute the double.
\<close>

datatype sql_number = SqlInteger int | SqlReal int int

definition sql_sub :: "int \<Rightarrow> int \<Rightarrow> sql_number" where
  "sql_sub a b =
     (if - (2 ^ 63) \<le> a - b \<and> a - b < 2 ^ 63 then SqlInteger (a - b) else SqlReal a b)"

text \<open>The row of the result, in the order of the SELECT list.\<close>

record p2_row =
  movie_title :: string
  language :: string
  format :: string
  rating :: string
  hall_name :: string
  show_timing :: string
  base_price :: string
  available_seats :: sql_number

type_synonym p2_joined =
  "(((show_row \<times> movie_row) \<times> hall_row) \<times> theater_row) \<times> booked_seats_row option"

definition p2_from ::
  "show_row list \<Rightarrow> movie_row list \<Rightarrow> hall_row list \<Rightarrow> theater_row list \<Rightarrow>
   booking_row list \<Rightarrow> booking_seat_row list \<Rightarrow> p2_joined list" where
  "p2_from shows movies halls theaters bookings booking_seats =
     left_join
       (inner_join
         (inner_join
           (inner_join shows movies (\<lambda>s m. s_movie_id s = m_movie_id m))
           halls (\<lambda>(s, m) h. s_hall_id s = h_hall_id h))
         theaters (\<lambda>((s, m), h) t. h_theater_id h = t_theater_id t))
       (booked_seats bookings booking_seats)
       (\<lambda>(((s, m), h), t) k. s_show_id s = bk_show_id k)"

text \<open>The WHERE clause; \<open>today\<close> is the value of \<^verbatim>\<open>date('now')\<close>.\<close>

definition p2_where :: "string \<Rightarrow> p2_joined \<Rightarrow> bool" where
  "p2_where today = (\<lambda>((((s, m), h), t), k).
     t_theater_name t = ''PVR: Nexus'' \<and> s_show_date s = today
     \<and> s_is_active s = 1 \<and> m_is_active m = 1)"

definition p2_select :: "p2_joined \<Rightarrow> p2_row" where
  "p2_select = (\<lambda>((((s, m), h), t), k).
     \<lparr>movie_title = m_title m, language = m_language m, format = m_format m,
      rating = m_rating m, hall_name = h_hall_name h, show_timing = s_start_time s,
      base_price = s_base_price s,
      available_seats =
        sql_sub (h_seating_capacity h) (coalesce0 (map_option bk_booked_count k))\<rparr>)"

definition p2_order_key :: "p2_joined \<Rightarrow> string" where
  "p2_order_key = (\<lambda>((((s, m), h), t), k). s_start_time s)"

text \<open>
  The joined rows that pass the filter, in the order of \<^verbatim>\<open>ORDER BY s.start_time ASC\<close>
  (text compares bytewise; rows with equal start times come in an order the engine
  chooses, here the one of the join), and the rows the cursor returns.
\<close>

definition p2_sorted ::
  "show_row list \<Rightarrow> movie_row list \<Rightarrow> hall_row list \<Rightarrow> theater_row list \<Rightarrow>
   booking_row list \<Rightarrow> booking_seat_row list \<Rightarrow> string \<Rightarrow> p2_joined list" where
  "p2_sorted shows movies halls theaters bookings booking_seats today =
     sort_key p2_order_key
       (filter (p2_where today) (p2_from shows movies halls theaters bookings booking_seats))"

definition p2_rows ::
  "show_row list \<Rightarrow> movie_row list \<Rightarrow> hall_row list \<Rightarrow> theater_row list \<Rightarrow>
   booking_row list \<Rightarrow> booking_seat_row list \<Rightarrow> string \<Rightarrow> p2_row list" where
  "p2_rows shows movies halls theaters bookings booking_seats today =
     map p2_select (p2_sorted shows movies halls theaters bookings booking_seats today)"

section \<open>The world the script runs in\<close>

text \<open>
  The two files of the working directory (\<open>None\<close>: the file is absent), the value
  of \<^verbatim>\<open>date('now')\<close>, and the trace of what the script has done so far: the lines
  it printed and the calls it made on the connection and the file system, in order.
  A function of the script takes the world and gives its outcome and the new world;
  the outcome is \<open>Inl\<close> of the exception that left the function (\<^verbatim>\<open>sys.exit(n)\<close> is
  \<open>SystemExit n\<close>, an error of the SQL engine is \<open>SqliteError\<close>) or \<open>Inr\<close> of the
  value returned. Failures of the operating system under \<^verbatim>\<open>print\<close>,
  \<^verbatim>\<open>sqlite3.connect\<close> and \<^verbatim>\<open>os.remove\<close> are outside the model.
\<close>

datatype stmt = PragmaForeignKeysOn | SelectCount string | P2Query

datatype event =
  Print string | PrintHelp | Connect | Execute stmt | Executescript string
  | Commit | Close | Remove

datatype error = SystemExit int | SqliteError string

record world =
  schema_file :: "string option"
  db_file :: "store option"
  today :: string
  trace :: "event list"

definition DB_FILE :: string where
  "DB_FILE = ''movie_booking_system.db''"

definition SCHEMA_FILE :: string where
  "SCHEMA_FILE = ''movie_booking_schema_sqlite.sql''"

definition emit :: "event \<Rightarrow> world \<Rightarrow> world" where
  "emit e w = w\<lparr>trace := trace w @ [e]\<rparr>"

definition py_print :: "string \<Rightarrow> world \<Rightarrow> world" where
  "py_print line w = emit (Print line) w"

text \<open>A file name between single quotes, as the messages print it.\<close>

definition quoted :: "string \<Rightarrow> string" where
  "quoted name = [CHR 0x27] @ name @ [CHR 0x27]"

text \<open>Python's \<^verbatim>\<open>str\<close> on an integer.\<close>

fun str_nat :: "nat \<Rightarrow> string" where
  "str_nat n = (if n < 10 then [''0123456789'' ! n]
                else str_nat (n div 10) @ [''0123456789'' ! (n mod 10)])"

declare str_nat.simps [simp del]

definition str_int :: "int \<Rightarrow> string" where
  "str_int i = (if i < 0 then ''-'' @ str_nat (nat (- i)) else str_nat (nat i))"

text \<open>
  \<^verbatim>\<open>get_connection\<close>: \<^verbatim>\<open>sqlite3.connect\<close> creates the file when it is absent, then
  the pragma is executed. The connection is the one open handle on \<open>db_file\<close>.
\<close>

definition get_connection :: "world \<Rightarrow> world" where
  "get_connection w =
     emit (Execute PragmaForeignKeysOn)
       (emit Connect
         (w\<lparr>db_file := Some (case db_file w of None \<Rightarrow> empty_store | Some st \<Rightarrow> st)\<rparr>))"

section \<open>Schema Loader\<close>

text \<open>
  \<^verbatim>\<open>conn.executescript\<close> runs SQL text that the script reads from the schema file; the
  engine that runs it is a parameter: it gives the store the statements reached and
  the error, if one was raised.
\<close>

type_synonym engine = "string \<Rightarrow> store \<Rightarrow> error option \<times> store"

definition setup_database :: "engine \<Rightarrow> world \<Rightarrow> (error + unit) \<times> world" where
  "setup_database run w =
     (case schema_file w of
        None \<Rightarrow>
          (Inl (SystemExit 1),
           py_print (''ERROR: Schema file '' @ quoted SCHEMA_FILE @ '' not found.'') w)
      | Some schema_sql \<Rightarrow>
          (let w1 = py_print (''Setting up database from '' @ quoted SCHEMA_FILE @ ''...'') w;
               w2 = get_connection w1;
               w3 = emit (Executescript schema_sql) w2
           in case db_file w3 of
                None \<Rightarrow> (Inl (SqliteError ''unable to open database file''), emit Close w3)
              | Some st \<Rightarrow>
                  (case run schema_sql st of
                     (Some e, st') \<Rightarrow> (Inl e, emit Close (w3\<lparr>db_file := Some st'\<rparr>))
                   | (None, st') \<Rightarrow>
                       (Inr (),
                        emit Close
                          (py_print ''Database setup complete.''
                            (emit Commit (w3\<lparr>db_file := Some st'\<rparr>)))))))"

section \<open>Verifier\<close>

definition expected :: "(string \<times> int) list" where
  "expected = [(''Theater'', 2), (''Movie'', 6), (''Hall'', 5), (''Seat'', 9), (''Booking'', 3)]"

definition table_count :: "store \<Rightarrow> string \<Rightarrow> int option" where
  "table_count st name =
     (if name = ''Theater'' then map_option (\<lambda>rows. int (length rows)) (Theater st)
      else if name = ''Movie'' then map_option (\<lambda>rows. int (length rows)) (Movie st)
      else if name = ''Hall'' then map_option (\<lambda>rows. int (length rows)) (Hall st)
      else if name = ''Seat'' then map_option (\<lambda>rows. int (length rows)) (Seat st)
      else if name = ''Show'' then map_option (\<lambda>rows. int (length rows)) (Show st)
      else if name = ''Booking'' then map_option (\<lambda>rows. int (length rows)) (Booking st)
      else if name = ''Booking_Seat'' then map_option (\<lambda>rows. int (length rows)) (Booking_Seat st)
      else None)"

text \<open>\<^verbatim>\<open>conn.execute(f'SELECT COUNT(*) FROM {table}').fetchone()[0]\<close>\<close>

definition select_count :: "string \<Rightarrow> world \<Rightarrow> (error + int) \<times> world" where
  "select_count table w =
     (let w' = emit (Execute (SelectCount table)) w
      in case db_file w' of
           None \<Rightarrow> (Inl (SqliteError ''unable to open database file''), w')
         | Some st \<Rightarrow>
             (case table_count st table of
                None \<Rightarrow> (Inl (SqliteError (''no such table: '' @ table)), w')
              | Some n \<Rightarrow> (Inr n, w')))"

definition count_line :: "string \<Rightarrow> int \<Rightarrow> int \<Rightarrow> string \<Rightarrow> string" where
  "count_line table count min_count status =
     ''  '' @ table @ '': '' @ str_int count @ '' rows (expected >= '' @ str_int min_count
       @ '') ['' @ status @ '']''"

text \<open>The loop over \<^verbatim>\<open>expected.items()\<close>, with \<open>all_ok\<close> carried along.\<close>

fun verify_loop :: "(string \<times> int) list \<Rightarrow> bool \<Rightarrow> world \<Rightarrow> (error + bool) \<times> world" where
  "verify_loop [] all_ok w = (Inr all_ok, w)"
| "verify_loop ((table, min_count) # rest) all_ok w =
     (case select_count table w of
        (Inl e, w1) \<Rightarrow> (Inl e, w1)
      | (Inr count, w1) \<Rightarrow>
          (let status = (if count \<ge> min_count then ''OK'' else ''FAIL'');
               all_ok' = (if status = ''FAIL'' then False else all_ok);
               w2 = py_print (count_line table count min_count status) w1
           in verify_loop rest all_ok' w2))"

text \<open>The body of the \<^verbatim>\<open>try\<close> block.\<close>

definition verify_body :: "world \<Rightarrow> (error + bool) \<times> world" where
  "verify_body w =
     (let w1 = py_print ''Verifying database setup...'' w
      in case verify_loop expected True w1 of
           (Inl e, w2) \<Rightarrow> (Inl e, w2)
         | (Inr all_ok, w2) \<Rightarrow>
             (case select_count ''Show'' w2 of
                (Inl e, w3) \<Rightarrow> (Inl e, w3)
              | (Inr show_count, w3) \<Rightarrow>
                  (let status = (if show_count \<ge> 20 then ''OK'' else ''WARN'')
                   in (Inr all_ok, py_print (count_line ''Show'' show_count 20 status) w3))))"

definition verify_setup :: "world \<Rightarrow> (error + bool) \<times> world" where
  "verify_setup w =
     (if db_file w = None then
        (Inl (SystemExit 1),
         py_print (''ERROR: Database file '' @ quoted DB_FILE @ '' not found. Run --setup first.'') w)
      else
        (case verify_body (get_connection w) of
           (Inl e, w1) \<Rightarrow> (Inl e, emit Close w1)
         | (Inr all_ok, w1) \<Rightarrow>
             (Inr all_ok,
              py_print
                (if all_ok then ''Verification passed.''
                 else ''Verification failed. Some tables have fewer rows than expected.'')
                (emit Close w1))))"

section \<open>Availability Reporter\<close>

text \<open>
  The six tables the P2 query reads. The statement raises when one is not there, and
  the message names the first one that is missing, in the order of the FROM clause
  (the derived table comes last).
\<close>

definition run_p2 :: "store \<Rightarrow> string \<Rightarrow> string + p2_row list" where
  "run_p2 st now =
     (case Show st of None \<Rightarrow> Inl ''Show'' | Some shows \<Rightarrow>
     (case Movie st of None \<Rightarrow> Inl ''Movie'' | Some movies \<Rightarrow>
     (case Hall st of None \<Rightarrow> Inl ''Hall'' | Some halls \<Rightarrow>
     (case Theater st of None \<Rightarrow> Inl ''Theater'' | Some theaters \<Rightarrow>
     (case Booking st of None \<Rightarrow> Inl ''Booking'' | Some bookings \<Rightarrow>
     (case Booking_Seat st of None \<Rightarrow> Inl ''Booking_Seat'' | Some booking_seats \<Rightarrow>
        Inr (p2_rows shows movies halls theaters bookings booking_seats now)))))))"

text \<open>\<^verbatim>\<open>cursor = conn.execute(query); rows = cursor.fetchall()\<close>\<close>

definition execute_p2 :: "world \<Rightarrow> (error + p2_row list) \<times> world" where
  "execute_p2 w =
     (let w' = emit (Execute P2Query) w
      in case db_file w' of
           None \<Rightarrow> (Inl (SqliteError ''unable to open database file''), w')
         | Some st \<Rightarrow>
             (case run_p2 st (today w') of
                Inl name \<Rightarrow> (Inl (SqliteError (''no such table: '' @ name)), w')
              | Inr rows \<Rightarrow> (Inr rows, w')))"

text \<open>\<^verbatim>\<open>[desc[0] for desc in cursor.description]\<close>: the aliases of the SELECT list.\<close>

definition columns :: "string list" where
  "columns = [''movie_title'', ''language'', ''format'', ''rating'', ''hall_name'',
     ''show_timing'', ''base_price'', ''available_seats'']"

text \<open>
  \<^verbatim>\<open>str(val)\<close> for each value of a row. The text that Python prints for a float is
  a parameter: \<open>float_str a b\<close> is \<^verbatim>\<open>str\<close> of the REAL that SQLite gives for \<open>a - b\<close>.
\<close>

type_synonym float_printer = "int \<Rightarrow> int \<Rightarrow> string"

definition str_number :: "float_printer \<Rightarrow> sql_number \<Rightarrow> string" where
  "str_number float_str v =
     (case v of SqlInteger n \<Rightarrow> str_int n | SqlReal a b \<Rightarrow> float_str a b)"

definition row_cells :: "float_printer \<Rightarrow> p2_row \<Rightarrow> string list" where
  "row_cells float_str r = [movie_title r, language r, format r, rating r, hall_name r,
     show_timing r, base_price r, str_number float_str (available_seats r)]"

definition ljust :: "string \<Rightarrow> nat \<Rightarrow> string" where
  "ljust s width = s @ replicate (width - length s) (CHR '' '')"

fun join :: "string \<Rightarrow> string list \<Rightarrow> string" where
  "join sep [] = []"
| "join sep [x] = x"
| "join sep (x # y # ys) = x @ sep @ join sep (y # ys)"

text \<open>\<^verbatim>\<open>max(..., default=0)\<close> on lengths.\<close>

definition max_default0 :: "nat list \<Rightarrow> nat" where
  "max_default0 ns = (case ns of [] \<Rightarrow> 0 | n # ms \<Rightarrow> fold max ms n)"

definition col_widths :: "float_printer \<Rightarrow> p2_row list \<Rightarrow> nat list" where
  "col_widths float_str rows =
     map (\<lambda>(i, col). max (length col)
                        (max_default0 (map (\<lambda>row. length (row_cells float_str row ! i)) rows)))
       (enumerate 0 columns)"

definition header_line :: "float_printer \<Rightarrow> p2_row list \<Rightarrow> string" where
  "header_line float_str rows =
     ''  '' @ join ''  ''
       (map (\<lambda>(i, col). ljust col (col_widths float_str rows ! i)) (enumerate 0 columns))"

definition separator_line :: "float_printer \<Rightarrow> p2_row list \<Rightarrow> string" where
  "separator_line float_str rows =
     ''  '' @ join ''  '' (map (\<lambda>width. replicate width (CHR ''-'')) (col_widths float_str rows))"

definition row_line :: "float_printer \<Rightarrow> p2_row list \<Rightarrow> p2_row \<Rightarrow> string" where
  "row_line float_str rows row =
     ''  '' @ join ''  ''
       (map (\<lambda>(i, val). ljust val (col_widths float_str rows ! i))
            (enumerate 0 (row_cells float_str row)))"

definition found_line :: "p2_row list \<Rightarrow> string" where
  "found_line rows = [CHR 0x0A] @ ''  '' @ str_int (int (length rows)) @ '' show(s) found.''"

definition no_shows_line :: string where
  "no_shows_line =
     ''  No shows found for today. (This is expected if today has no scheduled shows.)''"

text \<open>The lines of the \<^verbatim>\<open>if not rows: ... else: ...\<close> statement.\<close>

definition report_lines :: "float_printer \<Rightarrow> p2_row list \<Rightarrow> string list" where
  "report_lines float_str rows =
     (if rows = [] then [no_shows_line]
      else [header_line float_str rows, separator_line float_str rows]
             @ map (row_line float_str rows) rows @ [found_line rows])"

definition p2_body :: "float_printer \<Rightarrow> world \<Rightarrow> (error + bool) \<times> world" where
  "p2_body float_str w =
     (let w1 = py_print (''Running P2 query: Shows at '' @ quoted ''PVR: Nexus'' @ '' for today...'') w
      in case execute_p2 w1 of
           (Inl e, w2) \<Rightarrow> (Inl e, w2)
         | (Inr rows, w2) \<Rightarrow>
             (let w3 = fold py_print (report_lines float_str rows) w2
              in (Inr True, py_print ''P2 query test passed.'' w3)))"

definition test_p2_query :: "float_printer \<Rightarrow> world \<Rightarrow> (error + bool) \<times> world" where
  "test_p2_query float_str w =
     (if db_file w = None then
        (Inl (SystemExit 1),
         py_print (''ERROR: Database file '' @ quoted DB_FILE @ '' not found. Run --setup first.'') w)
      else
        (case p2_body float_str (get_connection w) of
           (r, w1) \<Rightarrow> (r, emit Close w1)))"

section \<open>Test Orchestrator\<close>

definition print_banner :: "world \<Rightarrow> world" where
  "print_banner w =
     py_print (replicate 60 (CHR ''=''))
       (py_print ''Running all tests'' (py_print (replicate 60 (CHR ''='')) w))"

definition run_all_tests :: "float_printer \<Rightarrow> world \<Rightarrow> (error + bool) \<times> world" where
  "run_all_tests float_str w =
     (case verify_setup (print_banner w) of
        (Inl e, w1) \<Rightarrow> (Inl e, w1)
      | (Inr ok, w1) \<Rightarrow>
          (case test_p2_query float_str (py_print [] w1) of
             (Inl e, w2) \<Rightarrow> (Inl e, w2)
           | (Inr p2_ok, w2) \<Rightarrow>
               (let ok' = (p2_ok \<and> ok)
                in (Inr ok',
                    py_print (if ok' then ''All tests passed.'' else ''Some tests failed.'')
                      (py_print [] w2)))))"

section \<open>Teardown\<close>

definition teardown_database :: "world \<Rightarrow> world" where
  "teardown_database w =
     (if db_file w \<noteq> None then
        py_print (''Database file '' @ quoted DB_FILE @ '' removed.'')
          (emit Remove (w\<lparr>db_file := None\<rparr>))
      else
        py_print (''Database file '' @ quoted DB_FILE @ '' not found; nothing to remove.'') w)"

section \<open>The command line\<close>

record args =
  arg_setup :: bool
  arg_verify :: bool
  arg_test_p2 :: bool
  arg_test :: bool
  arg_teardown :: bool

text \<open>Run a step when its flag is set and nothing before it has raised.\<close>

definition step :: "bool \<Rightarrow> (world \<Rightarrow> (error + unit) \<times> world) \<Rightarrow> (error + unit) \<times> world \<Rightarrow> (error + unit) \<times> world" where
  "step flag f rw =
     (case rw of (Inl e, w) \<Rightarrow> (Inl e, w) | (Inr u, w) \<Rightarrow> (if flag then f w else (Inr (), w)))"

definition discard :: "(error + 'a) \<times> world \<Rightarrow> (error + unit) \<times> world" where
  "discard rw = (case rw of (Inl e, w) \<Rightarrow> (Inl e, w) | (Inr v, w) \<Rightarrow> (Inr (), w))"

definition main :: "engine \<Rightarrow> float_printer \<Rightarrow> args \<Rightarrow> world \<Rightarrow> (error + unit) \<times> world" where
  "main run float_str a w =
     (if \<not> (arg_setup a \<or> arg_verify a \<or> arg_test_p2 a \<or> arg_test a \<or> arg_teardown a) then
        (Inl (SystemExit 0), emit PrintHelp w)
      else
        step (arg_teardown a) (\<lambda>w. (Inr (), teardown_database w))
          (step (arg_test a)
             (\<lambda>w. case run_all_tests float_str w of
                     (Inl e, w') \<Rightarrow> (Inl e, w')
                   | (Inr success, w') \<Rightarrow> (Inl (SystemExit (if success then 0 else 1)), w'))
             (step (arg_test_p2 a) (\<lambda>w. discard (test_p2_query float_str w))
                (step (arg_verify a) (\<lambda>w. discard (verify_setup w))
                   (step (arg_setup a) (setup_database run) (Inr (), w))))))"

text \<open>
  The status the process ends with: the code of a \<^verbatim>\<open>SystemExit\<close>, 1 for an exception
  nobody caught, 0 when \<open>main\<close> returns.
\<close>

definition exit_status :: "(error + unit) \<times> world \<Rightarrow> int" where
  "exit_status rw = (case fst rw of Inl (SystemExit n) \<Rightarrow> n | Inl (SqliteError msg) \<Rightarrow> 1 | Inr u \<Rightarrow> 0)"

section \<open>The quantities of the availability property\<close>

text \<open>
  The seats attached to the bookings of show \<open>sid\<close> whose status is exactly
  \<open>Confirmed\<close>, one entry for each row of \<open>Booking_Seat\<close> that attaches a seat to
  such a booking: a seat attached to two of them occurs twice. The number of distinct
  seats is the cardinality of the set of this list.
\<close>

definition confirmed_seat_ids :: "booking_row list \<Rightarrow> booking_seat_row list \<Rightarrow> int \<Rightarrow> int list" where
  "confirmed_seat_ids bookings booking_seats sid =
     [seat. b \<leftarrow> bookings, b_show_id b = sid, b_booking_status b = ''Confirmed'',
            bs \<leftarrow> booking_seats, bs_booking_id bs = b_booking_id b,
            seat \<leftarrow> (case bs_seat_id bs of None \<Rightarrow> [] | Some seat \<Rightarrow> [seat])]"

text \<open>
  A show with its movie, its hall and the hall's theater, taken from the tables by the
  three references, that meets the four conditions of the filter.
\<close>

definition p2_matches ::
  "show_row list \<Rightarrow> movie_row list \<Rightarrow> hall_row list \<Rightarrow> theater_row list \<Rightarrow> string \<Rightarrow>
   ((show_row \<times> movie_row) \<times> hall_row) \<times> theater_row \<Rightarrow> bool" where
  "p2_matches show_rows movies halls theaters now = (\<lambda>(((s, m), h), t).
     s \<in> set show_rows \<and> m \<in> set movies \<and> h \<in> set halls \<and> t \<in> set theaters
     \<and> s_movie_id s = m_movie_id m \<and> s_hall_id s = h_hall_id h \<and> h_theater_id h = t_theater_id t
     \<and> t_theater_name t = ''PVR: Nexus'' \<and> s_show_date s = now
     \<and> s_is_active s = 1 \<and> m_is_active m = 1)"

text \<open>The rows of the filtered join that \<^verbatim>\<open>COUNT(bs.seat_id)\<close> counts in the group of \<open>sid\<close>.\<close>

definition booked_rows :: "booking_row list \<Rightarrow> booking_seat_row list \<Rightarrow> int \<Rightarrow> (booking_row \<times> booking_seat_row) list" where
  "booked_rows bookings booking_seats sid =
     filter (\<lambda>(b, bs). b_show_id b = sid \<and> bs_seat_id bs \<noteq> None) (confirmed_join bookings booking_seats)"

section \<open>A sample store\<close>

text \<open>
  Two theaters, a hall in each, an active and a withdrawn movie, three seats, and
  seven shows: show 1 has three Confirmed bookings of one seat each, show 2 has two
  Confirmed bookings that both hold seat 1 and a Cancelled one, shows 3 to 6 each fail
  one condition of the filter, show 7 has no booking. Every reference points to a row
  that exists.
\<close>

definition ex_nexus :: theater_row where
  "ex_nexus = \<lparr>t_theater_id = 1, t_theater_name = ''PVR: Nexus''\<rparr>"

definition ex_inox :: theater_row where
  "ex_inox = \<lparr>t_theater_id = 2, t_theater_name = ''INOX''\<rparr>"

definition ex_hall_a :: hall_row where
  "ex_hall_a = \<lparr>h_hall_id = 1, h_theater_id = 1, h_hall_name = ''Hall A'', h_seating_capacity = 50\<rparr>"

definition ex_hall_b :: hall_row where
  "ex_hall_b = \<lparr>h_hall_id = 2, h_theater_id = 2, h_hall_name = ''Hall B'', h_seating_capacity = 30\<rparr>"

definition ex_dune :: movie_row where
  "ex_dune = \<lparr>m_movie_id = 1, m_title = ''Dune'', m_language = ''English'', m_format = ''2D'',
     m_rating = ''UA'', m_is_active = 1\<rparr>"

definition ex_old :: movie_row where
  "ex_old = \<lparr>m_movie_id = 2, m_title = ''Old'', m_language = ''Hindi'', m_format = ''3D'',
     m_rating = ''A'', m_is_active = 0\<rparr>"

definition ex_show :: "int \<Rightarrow> int \<Rightarrow> int \<Rightarrow> string \<Rightarrow> string \<Rightarrow> int \<Rightarrow> show_row" where
  "ex_show sid mid hid day start active =
     \<lparr>s_show_id = sid, s_movie_id = mid, s_hall_id = hid, s_show_date = day,
      s_start_time = start, s_base_price = ''250.0'', s_is_active = active\<rparr>"

definition ex_today :: string where
  "ex_today = ''2026-11-03''"

definition ex_shows :: "show_row list" where
  "ex_shows =
     [ex_show 1 1 1 ex_today ''18:00:00'' 1,
      ex_show 2 1 1 ex_today ''10:00:00'' 1,
      ex_show 3 2 1 ex_today ''12:00:00'' 1,
      ex_show 4 1 2 ex_today ''12:00:00'' 1,
      ex_show 5 1 1 ''2026-11-04'' ''12:00:00'' 1,
      ex_show 6 1 1 ex_today ''13:00:00'' 0,
      ex_show 7 1 1 ex_today ''21:00:00'' 1]"

definition ex_seats :: "seat_row list" where
  "ex_seats = [\<lparr>st_seat_id = 1, st_hall_id = 1\<rparr>, \<lparr>st_seat_id = 2, st_hall_id = 1\<rparr>,
     \<lparr>st_seat_id = 3, st_hall_id = 1\<rparr>]"

definition ex_bookings :: "booking_row list" where
  "ex_bookings =
     [\<lparr>b_booking_id = 1, b_show_id = 1, b_booking_status = ''Confirmed''\<rparr>,
      \<lparr>b_booking_id = 2, b_show_id = 1, b_booking_status = ''Confirmed''\<rparr>,
      \<lparr>b_booking_id = 3, b_show_id = 1, b_booking_status = ''Confirmed''\<rparr>,
      \<lparr>b_booking_id = 4, b_show_id = 2, b_booking_status = ''Cancelled''\<rparr>,
      \<lparr>b_booking_id = 5, b_show_id = 2, b_booking_status = ''Confirmed''\<rparr>,
      \<lparr>b_booking_id = 6, b_show_id = 2, b_booking_status = ''Confirmed''\<rparr>]"

definition ex_booking_seats :: "booking_seat_row list" where
  "ex_booking_seats =
     [\<lparr>bs_booking_id = 1, bs_seat_id = Some 1\<rparr>, \<lparr>bs_booking_id = 2, bs_seat_id = Some 2\<rparr>,
      \<lparr>bs_booking_id = 3, bs_seat_id = Some 3\<rparr>, \<lparr>bs_booking_id = 4, bs_seat_id = Some 3\<rparr>,
      \<lparr>bs_booking_id = 5, bs_seat_id = Some 1\<rparr>, \<lparr>bs_booking_id = 6, bs_seat_id = Some 1\<rparr>]"

definition ex_store :: store where
  "ex_store = \<lparr>Theater = Some [ex_nexus, ex_inox], Movie = Some [ex_dune, ex_old],
     Hall = Some [ex_hall_a, ex_hall_b], Seat = Some ex_seats, Show = Some ex_shows,
     Booking = Some ex_bookings, Booking_Seat = Some ex_booking_seats\<rparr>"

text \<open>The sample store in place, no schema file, nothing done yet.\<close>

definition ex_world :: world where
  "ex_world = \<lparr>schema_file = None, db_file = Some ex_store, today = ex_today, trace = []\<rparr>"

text \<open>The same store with every table empty, as a schema without sample rows leaves it.\<close>

definition ex_blank_store :: store where
  "ex_blank_store = \<lparr>Theater = Some [], Movie = Some [], Hall = Some [], Seat = Some [],
     Show = Some [], Booking = Some [], Booking_Seat = Some []\<rparr>"

definition ex_blank_world :: world where
  "ex_blank_world = \<lparr>schema_file = None, db_file = Some ex_blank_store, today = ex_today, trace = []\<rparr>"

text \<open>An engine for which every script succeeds and leaves the sample store.\<close>

definition ex_engine :: engine where
  "ex_engine schema_sql st = (None, ex_store)"

text \<open>
  A printer for floats: the sample stores give the Reporter one REAL at most, the one
  of the store below.
\<close>

definition ex_float_str :: float_printer where
  "ex_float_str a b = ''-9.223372036854776e+18''"

text \<open>
  A store whose one hall has the least capacity a 64-bit integer can hold, with one
  Confirmed booking of one seat for its one show.
\<close>

definition ex_low_hall :: hall_row where
  "ex_low_hall = \<lparr>h_hall_id = 1, h_theater_id = 1, h_hall_name = ''Hall A'',
     h_seating_capacity = - (2 ^ 63)\<rparr>"

definition ex_low_store :: store where
  "ex_low_store = \<lparr>Theater = Some [ex_nexus], Movie = Some [ex_dune],
     Hall = Some [ex_low_hall], Seat = Some ex_seats,
     Show = Some [ex_show 1 1 1 ex_today ''18:00:00'' 1],
     Booking = Some [\<lparr>b_booking_id = 1, b_show_id = 1, b_booking_status = ''Confirmed''\<rparr>],
     Booking_Seat = Some [\<lparr>bs_booking_id = 1, bs_seat_id = Some 1\<rparr>]\<rparr>"

definition ex_low_world :: world where
  "ex_low_world = \<lparr>schema_file = None, db_file = Some ex_low_store, today = ex_today, trace = []\<rparr>"

text \<open>A working directory with neither file.\<close>

definition ex_bare_world :: world where
  "ex_bare_world = \<lparr>schema_file = None, db_file = None, today = ex_today, trace = []\<rparr>"

section \<open>Facts about the operations\<close>

lemma emit_fields [simp]:
  "schema_file (emit e w) = schema_file w" "db_file (emit e w) = db_file w"
  "today (emit e w) = today w" "trace (emit e w) = trace w @ [e]"
  by (simp_all add: emit_def)

lemma py_print_fields [simp]:
  "schema_file (py_print l w) = schema_file w" "db_file (py_print l w) = db_file w"
  "today (py_print l w) = today w" "trace (py_print l w) = trace w @ [Print l]"
  by (simp_all add: py_print_def)

lemma get_connection_fields [simp]:
  "schema_file (get_connection w) = schema_file w"
  "db_file w = Some st \<Longrightarrow> db_file (get_connection w) = Some st"
  "today (get_connection w) = today w"
  "trace (get_connection w) = trace w @ [Connect, Execute PragmaForeignKeysOn]"
  by (simp_all add: get_connection_def)

lemma fold_py_print: "fold py_print ls w = w\<lparr>trace := trace w @ map Print ls\<rparr>"
  by (induction ls arbitrary: w) (simp_all add: py_print_def emit_def)

lemma select_count_snd [simp]: "snd (select_count table w) = emit (Execute (SelectCount table)) w"
  by (simp add: select_count_def Let_def split: option.splits)

lemma select_count_fst:
  "db_file w = Some st \<Longrightarrow>
   fst (select_count table w) =
     (case table_count st table of None \<Rightarrow> Inl (SqliteError (''no such table: '' @ table))
      | Some n \<Rightarrow> Inr n)"
  by (simp add: select_count_def Let_def split: option.splits)

lemma verify_loop_keeps:
  "db_file (snd (verify_loop cs ok w)) = db_file w \<and> today (snd (verify_loop cs ok w)) = today w
   \<and> schema_file (snd (verify_loop cs ok w)) = schema_file w"
proof (induction cs ok w rule: verify_loop.induct)
  case (1 all_ok w)
  then show ?case by simp
next
  case (2 table min_count rest all_ok w)
  obtain r w1 where sc: "select_count table w = (r, w1)" by (cases "select_count table w")
  then have w1: "w1 = emit (Execute (SelectCount table)) w"
    using select_count_snd [of table w] by simp
  show ?case
  proof (cases r)
    case (Inl e)
    with sc w1 show ?thesis by simp
  next
    case (Inr count)
    with sc w1 2 show ?thesis by (simp add: Let_def)
  qed
qed

lemma verify_body_keeps:
  "db_file (snd (verify_body w)) = db_file w \<and> today (snd (verify_body w)) = today w
   \<and> schema_file (snd (verify_body w)) = schema_file w"
proof -
  let ?w1 = "py_print ''Verifying database setup...'' w"
  obtain r w2 where vl: "verify_loop expected True ?w1 = (r, w2)"
    by (cases "verify_loop expected True ?w1")
  from verify_loop_keeps [of expected True ?w1] vl
  have k: "db_file w2 = db_file w" "today w2 = today w" "schema_file w2 = schema_file w" by simp_all
  obtain r' w3 where sc: "select_count ''Show'' w2 = (r', w3)" by (cases "select_count ''Show'' w2")
  then have w3: "w3 = emit (Execute (SelectCount ''Show'')) w2"
    using select_count_snd [of "''Show''" w2] by simp
  show ?thesis
    using vl sc k w3 by (cases r; cases r') (simp_all add: verify_body_def Let_def)
qed

lemma verify_setup_keeps:
  "db_file (snd (verify_setup w)) = db_file w \<and> today (snd (verify_setup w)) = today w
   \<and> schema_file (snd (verify_setup w)) = schema_file w"
proof (cases "db_file w")
  case None
  then show ?thesis by (simp add: verify_setup_def)
next
  case (Some st)
  obtain r w1 where vb: "verify_body (get_connection w) = (r, w1)"
    by (cases "verify_body (get_connection w)")
  from verify_body_keeps [of "get_connection w"] vb Some
  have "db_file w1 = db_file w" "today w1 = today w" "schema_file w1 = schema_file w" by simp_all
  with vb Some show ?thesis by (cases r) (simp_all add: verify_setup_def)
qed

lemma verify_setup_returns_present:
  "verify_setup w = (Inr ok, w1) \<Longrightarrow> db_file w \<noteq> None"
  by (cases "db_file w") (simp_all add: verify_setup_def)

lemma run_p2_present:
  assumes "Show st = Some show_rows" "Movie st = Some movies" "Hall st = Some halls"
    and "Theater st = Some theaters" "Booking st = Some bookings"
    and "Booking_Seat st = Some booking_seats"
  shows "run_p2 st now = Inr (p2_rows show_rows movies halls theaters bookings booking_seats now)"
  using assms by (simp add: run_p2_def)

lemma run_p2_missing:
  assumes "run_p2 st now = Inl name"
  shows "table_count st name = None"
    and "name \<in> set [''Show'', ''Movie'', ''Hall'', ''Theater'', ''Booking'', ''Booking_Seat'']"
  using assms by (auto simp: run_p2_def table_count_def split: option.splits)

lemma execute_p2_present:
  assumes "db_file w = Some st"
  shows "execute_p2 w =
    (case run_p2 st (today w) of
       Inl name \<Rightarrow> Inl (SqliteError (''no such table: '' @ name))
     | Inr rows \<Rightarrow> Inr rows,
     emit (Execute P2Query) w)"
  using assms by (simp add: execute_p2_def Let_def split: sum.splits)

lemma test_p2_query_present:
  assumes "db_file w = Some st"
  shows "test_p2_query float_str w =
    (case run_p2 st (today w) of
       Inl name \<Rightarrow> (Inl (SqliteError (''no such table: '' @ name)),
                 w\<lparr>trace := trace w @ [Connect, Execute PragmaForeignKeysOn,
                   Print (''Running P2 query: Shows at '' @ quoted ''PVR: Nexus'' @ '' for today...''),
                   Execute P2Query, Close]\<rparr>)
     | Inr rows \<Rightarrow> (Inr True,
                 w\<lparr>trace := trace w @ [Connect, Execute PragmaForeignKeysOn,
                   Print (''Running P2 query: Shows at '' @ quoted ''PVR: Nexus'' @ '' for today...''),
                   Execute P2Query] @ map Print (report_lines float_str rows)
                   @ [Print ''P2 query test passed.'', Close]\<rparr>))"
  using assms
  by (simp add: test_p2_query_def p2_body_def execute_p2_def get_connection_def fold_py_print
      py_print_def emit_def Let_def split: sum.splits)

lemma print_banner_fields [simp]:
  "schema_file (print_banner w) = schema_file w" "db_file (print_banner w) = db_file w"
  "today (print_banner w) = today w"
  by (simp_all add: print_banner_def)

lemma table_count_simps:
  "table_count st ''Theater'' = map_option (\<lambda>rows. int (length rows)) (Theater st)"
  "table_count st ''Movie'' = map_option (\<lambda>rows. int (length rows)) (Movie st)"
  "table_count st ''Hall'' = map_option (\<lambda>rows. int (length rows)) (Hall st)"
  "table_count st ''Seat'' = map_option (\<lambda>rows. int (length rows)) (Seat st)"
  "table_count st ''Show'' = map_option (\<lambda>rows. int (length rows)) (Show st)"
  "table_count st ''Booking'' = map_option (\<lambda>rows. int (length rows)) (Booking st)"
  by (simp_all add: table_count_def)

lemma select_count_present:
  "db_file w = Some st \<Longrightarrow> table_count st table = Some n \<Longrightarrow>
   select_count table w = (Inr n, emit (Execute (SelectCount table)) w)"
  by (simp add: select_count_def Let_def)

lemma set_inner_join:
  "set (inner_join xs ys on) = {(x, y). x \<in> set xs \<and> y \<in> set ys \<and> on x y}"
  by (auto simp: inner_join_def)

lemma filter_unique_key:
  "distinct (map f ys) \<Longrightarrow>
   filter (\<lambda>y. a = f y) ys = (case find (\<lambda>y. a = f y) ys of None \<Rightarrow> [] | Some y \<Rightarrow> [y])"
proof (induction ys)
  case Nil
  then show ?case by simp
next
  case (Cons y ys)
  show ?case
  proof (cases "a = f y")
    case True
    with Cons.prems have "\<forall>z\<in>set ys. a \<noteq> f z" by auto
    then have "filter (\<lambda>y. a = f y) ys = []" by (simp add: filter_empty_conv)
    with True show ?thesis by simp
  next
    case False
    with Cons show ?thesis by simp
  qed
qed

lemma left_join_unique_key:
  assumes "distinct (map f ys)" and "\<And>x y. on x y \<longleftrightarrow> g x = f y"
  shows "left_join xs ys on = map (\<lambda>x. (x, find (on x) ys)) xs"
proof -
  have "(case filter (on x) ys of [] \<Rightarrow> [(x, None)] | y # ms \<Rightarrow> map (\<lambda>y'. (x, Some y')) (y # ms))
        = [(x, find (on x) ys)]" for x
  proof -
    have on: "on x = (\<lambda>y. g x = f y)" using assms(2) by auto
    show ?thesis
      unfolding on using filter_unique_key [OF assms(1), of "g x"]
      by (simp split: option.splits)
  qed
  then show ?thesis by (simp add: left_join_def)
qed

lemma find_eq_key: "find (\<lambda>y. a = y) ys = (if a \<in> set ys then Some a else None)"
  by (induction ys) auto

lemma find_map: "find P (map F xs) = map_option F (find (\<lambda>x. P (F x)) xs)"
  by (induction xs) auto

lemma booked_seats_keys:
  "map bk_show_id (booked_seats bookings booking_seats)
     = remdups (map (\<lambda>(b, bs). b_show_id b) (confirmed_join bookings booking_seats))"
  by (simp add: booked_seats_def Let_def comp_def)

lemma booked_seats_distinct: "distinct (map bk_show_id (booked_seats bookings booking_seats))"
  by (simp add: booked_seats_keys)

lemma booked_seats_find:
  "find (\<lambda>k. sid = bk_show_id k) (booked_seats bookings booking_seats) =
     (if sid \<in> (\<lambda>(b, bs). b_show_id b) ` set (confirmed_join bookings booking_seats)
      then Some \<lparr>bk_show_id = sid,
                 bk_booked_count = int (length (booked_rows bookings booking_seats sid))\<rparr>
      else None)"
  by (simp add: booked_seats_def Let_def find_map find_eq_key booked_rows_def)

lemma booked_count_coalesce:
  "coalesce0 (map_option bk_booked_count
       (find (\<lambda>k. sid = bk_show_id k) (booked_seats bookings booking_seats)))
     = int (length (booked_rows bookings booking_seats sid))"
proof (cases "sid \<in> (\<lambda>(b, bs). b_show_id b) ` set (confirmed_join bookings booking_seats)")
  case True
  then show ?thesis by (simp add: booked_seats_find coalesce0_def)
next
  case False
  then have "booked_rows bookings booking_seats sid = []"
    by (auto simp: booked_rows_def filter_empty_conv image_iff)
  with False show ?thesis by (simp add: booked_seats_find coalesce0_def)
qed

lemma p2_from_eq:
  "p2_from shows movies halls theaters bookings booking_seats =
     map (\<lambda>x. (x, find (\<lambda>k. s_show_id (fst (fst (fst x))) = bk_show_id k)
                      (booked_seats bookings booking_seats)))
       (inner_join
         (inner_join
           (inner_join shows movies (\<lambda>s m. s_movie_id s = m_movie_id m))
           halls (\<lambda>(s, m) h. s_hall_id s = h_hall_id h))
         theaters (\<lambda>((s, m), h) t. h_theater_id h = t_theater_id t))"
  unfolding p2_from_def
  by (subst left_join_unique_key [where f = bk_show_id and g = "\<lambda>x. s_show_id (fst (fst (fst x)))"])
     (auto simp: booked_seats_distinct split_def)

lemma p2_sorted_iff:
  "((((s, m), h), t), k) \<in> set (p2_sorted shows movies halls theaters bookings booking_seats now) \<longleftrightarrow>
     s \<in> set shows \<and> m \<in> set movies \<and> h \<in> set halls \<and> t \<in> set theaters
     \<and> s_movie_id s = m_movie_id m \<and> s_hall_id s = h_hall_id h \<and> h_theater_id h = t_theater_id t
     \<and> k = find (\<lambda>k. s_show_id s = bk_show_id k) (booked_seats bookings booking_seats)
     \<and> t_theater_name t = ''PVR: Nexus'' \<and> s_show_date s = now
     \<and> s_is_active s = 1 \<and> m_is_active m = 1"
  by (auto simp: p2_sorted_def p2_from_eq set_inner_join p2_where_def image_iff)

lemma seat_ids_of_booking_length:
  "length (concat (map (\<lambda>bs. if bs_booking_id bs = bid
                                then (case bs_seat_id bs of None \<Rightarrow> [] | Some seat \<Rightarrow> [seat])
                                else []) bss))
     = length (filter (\<lambda>bs. bid = bs_booking_id bs \<and> bs_seat_id bs \<noteq> None) bss)"
  by (induction bss) (auto split: option.splits)

lemma booked_rows_Cons:
  "booked_rows (b # bookings) bss sid =
     (if b_booking_status b = ''Confirmed'' \<and> b_show_id b = sid
      then map (Pair b) (filter (\<lambda>bs. b_booking_id b = bs_booking_id bs \<and> bs_seat_id bs \<noteq> None) bss)
      else [])
     @ booked_rows bookings bss sid"
proof -
  have "filter (\<lambda>(b', bs). b_show_id b' = sid \<and> bs_seat_id bs \<noteq> None)
          (filter (\<lambda>(b', bs). b_booking_status b' = ''Confirmed'')
            (map (Pair b) (filter (\<lambda>bs. b_booking_id b = bs_booking_id bs) bss)))
        = (if b_booking_status b = ''Confirmed'' \<and> b_show_id b = sid
           then map (Pair b) (filter (\<lambda>bs. b_booking_id b = bs_booking_id bs \<and> bs_seat_id bs \<noteq> None) bss)
           else [])"
    by (induction bss) auto
  then show ?thesis
    by (simp add: booked_rows_def confirmed_join_def inner_join_def)
qed

lemma confirmed_seat_ids_length:
  "length (confirmed_seat_ids bookings bss sid) = length (booked_rows bookings bss sid)"
proof (induction bookings)
  case Nil
  then show ?case
    by (simp add: confirmed_seat_ids_def booked_rows_def confirmed_join_def inner_join_def)
next
  case (Cons b bookings)
  have "confirmed_seat_ids (b # bookings) bss sid =
          (if b_show_id b = sid \<and> b_booking_status b = ''Confirmed''
           then concat (map (\<lambda>bs. if bs_booking_id bs = b_booking_id b
                                then (case bs_seat_id bs of None \<Rightarrow> [] | Some seat \<Rightarrow> [seat])
                                else []) bss)
           else [])
          @ confirmed_seat_ids bookings bss sid"
    by (simp add: confirmed_seat_ids_def cong: if_cong)
  with Cons show ?case
    by (simp add: booked_rows_Cons seat_ids_of_booking_length)
qed

lemma confirmed_seat_ids_Nil: "confirmed_seat_ids [] bss sid = []"
  by (simp add: confirmed_seat_ids_def)

lemma confirmed_seat_ids_Cons:
  "confirmed_seat_ids (b # bookings) bss sid =
          (if b_show_id b = sid \<and> b_booking_status b = ''Confirmed''
           then concat (map (\<lambda>bs. if bs_booking_id bs = b_booking_id b
                                then (case bs_seat_id bs of None \<Rightarrow> [] | Some seat \<Rightarrow> [seat])
                                else []) bss)
           else [])
          @ confirmed_seat_ids bookings bss sid"
  by (simp add: confirmed_seat_ids_def cong: if_cong)

lemma confirmed_seat_ids_none:
  "\<forall>b\<in>set bookings. b_show_id b = sid \<longrightarrow> b_booking_status b \<noteq> ''Confirmed'' \<Longrightarrow>
   confirmed_seat_ids bookings bss sid = []"
proof (induction bookings)
  case Nil
  show ?case by (rule confirmed_seat_ids_Nil)
next
  case (Cons b bookings)
  from Cons.prems have "\<not> (b_show_id b = sid \<and> b_booking_status b = ''Confirmed'')" by simp
  moreover from Cons have "confirmed_seat_ids bookings bss sid = []" by simp
  ultimately show ?case by (simp only: confirmed_seat_ids_Cons if_False append_Nil)
qed

lemma available_seats_select:
  "available_seats (p2_select ((((s, m), h), t),
       find (\<lambda>k. s_show_id s = bk_show_id k) (booked_seats bookings bss)))
     = sql_sub (h_seating_capacity h) (int (length (confirmed_seat_ids bookings bss (s_show_id s))))"
  by (simp add: p2_select_def booked_count_coalesce confirmed_seat_ids_length)

lemma verify_setup_present:
  assumes "db_file w = Some st"
    and "Theater st = Some theaters" "Movie st = Some movies" "Hall st = Some halls"
    and "Seat st = Some seats" "Booking st = Some bookings" "Show st = Some show_rows"
  shows "fst (verify_setup w) =
           Inr (\<not> (length theaters < 2 \<or> length movies < 6 \<or> length halls < 5
                   \<or> length seats < 9 \<or> length bookings < 3))"
    and "Print (count_line ''Show'' (int (length show_rows)) 20
                 (if 20 \<le> length show_rows then ''OK'' else ''WARN''))
           \<in> set (trace (snd (verify_setup w)))"
  using assms
  by (simp_all add: verify_setup_def verify_body_def expected_def select_count_present
      table_count_simps Let_def)

lemma p2_key_select: "show_timing (p2_select x) = p2_order_key x"
  by (simp add: p2_select_def p2_order_key_def split_def)

lemma p2_rows_sorted:
  "sorted (map show_timing (p2_rows shows movies halls theaters bookings booking_seats now))"
proof -
  have "map show_timing (p2_rows shows movies halls theaters bookings booking_seats now)
          = map p2_order_key (p2_sorted shows movies halls theaters bookings booking_seats now)"
    by (simp add: p2_rows_def p2_key_select)
  then show ?thesis by (simp add: p2_sorted_def)
qed

lemma booked_seats_no_key:
  assumes "\<forall>b\<in>set bookings. b_show_id b = sid \<longrightarrow> b_booking_status b \<noteq> ''Confirmed''"
  shows "sid \<notin> bk_show_id ` set (booked_seats bookings booking_seats)"
proof -
  have "sid \<notin> (\<lambda>(b, bs). b_show_id b) ` set (confirmed_join bookings booking_seats)"
    using assms by (auto simp: confirmed_join_def set_inner_join)
  then have "sid \<notin> set (remdups (map (\<lambda>(b, bs). b_show_id b) (confirmed_join bookings booking_seats)))"
    by simp
  then have "sid \<notin> set (map bk_show_id (booked_seats bookings booking_seats))"
    by (simp add: booked_seats_keys)
  then show ?thesis by simp
qed

lemma find_no_key: "a \<notin> f ` set ys \<Longrightarrow> find (\<lambda>y. a = f y) ys = None"
  by (induction ys) auto

lemma ex_sorted:
  "p2_sorted ex_shows [ex_dune, ex_old] [ex_hall_a, ex_hall_b] [ex_nexus, ex_inox]
      ex_bookings ex_booking_seats ex_today =
   [((((ex_show 2 1 1 ex_today ''10:00:00'' 1, ex_dune), ex_hall_a), ex_nexus),
       Some \<lparr>bk_show_id = 2, bk_booked_count = 2\<rparr>),
    ((((ex_show 1 1 1 ex_today ''18:00:00'' 1, ex_dune), ex_hall_a), ex_nexus),
       Some \<lparr>bk_show_id = 1, bk_booked_count = 3\<rparr>),
    ((((ex_show 7 1 1 ex_today ''21:00:00'' 1, ex_dune), ex_hall_a), ex_nexus), None)]"
  by code_simp

lemma ex_rows:
  "p2_rows ex_shows [ex_dune, ex_old] [ex_hall_a, ex_hall_b] [ex_nexus, ex_inox]
      ex_bookings ex_booking_seats ex_today =
   [\<lparr>movie_title = ''Dune'', language = ''English'', format = ''2D'', rating = ''UA'',
      hall_name = ''Hall A'', show_timing = ''10:00:00'', base_price = ''250.0'',
      available_seats = SqlInteger 48\<rparr>,
    \<lparr>movie_title = ''Dune'', language = ''English'', format = ''2D'', rating = ''UA'',
      hall_name = ''Hall A'', show_timing = ''18:00:00'', base_price = ''250.0'',
      available_seats = SqlInteger 47\<rparr>,
    \<lparr>movie_title = ''Dune'', language = ''English'', format = ''2D'', rating = ''UA'',
      hall_name = ''Hall A'', show_timing = ''21:00:00'', base_price = ''250.0'',
      available_seats = SqlInteger 50\<rparr>]"
  by code_simp

lemma ex_seat_ids:
  "confirmed_seat_ids ex_bookings ex_booking_seats 1 = [1, 2, 3]"
  "confirmed_seat_ids ex_bookings ex_booking_seats 2 = [1, 1]"
  by code_simp+

lemma length_ljust: "length (ljust s width) = max (length s) width"
  by (simp add: ljust_def)

lemma length_join:
  "length (join sep xs) = sum_list (map length xs) + length sep * (length xs - 1)"
  by (induction sep xs rule: join.induct) simp_all

lemma no_shows_line_length: "length no_shows_line = 79"
  by (simp add: no_shows_line_def)

lemma header_line_length: "92 \<le> length (header_line float_str rows)"
  by (simp add: header_line_def col_widths_def columns_def length_join length_ljust)

lemma separator_line_length: "92 \<le> length (separator_line float_str rows)"
  by (simp add: separator_line_def col_widths_def columns_def length_join)

lemma sum8_lower:
  fixes a b c d e f g h :: nat
  assumes "11 \<le> a" "8 \<le> b" "6 \<le> c" "6 \<le> d" "9 \<le> e" "11 \<le> f" "10 \<le> g" "15 \<le> h"
  shows "76 \<le> a + (b + (c + (d + (e + (f + (g + h))))))"
  using assms by linarith

lemma row_line_length: "92 \<le> length (row_line float_str rows row)"
  apply (simp add: row_line_def row_cells_def col_widths_def columns_def length_join length_ljust)
  apply (rule sum8_lower)
  apply (simp_all add: le_max_iff_disj)
  done

lemma found_line_differs: "found_line rows \<noteq> no_shows_line"
  by (simp add: found_line_def no_shows_line_def)

lemma no_shows_line_only_when_empty:
  assumes "rows \<noteq> []"
  shows "no_shows_line \<notin> set (report_lines float_str rows)"
proof
  assume "no_shows_line \<in> set (report_lines float_str rows)"
  with assms consider "no_shows_line = header_line float_str rows"
    | "no_shows_line = separator_line float_str rows"
    | row where "no_shows_line = row_line float_str rows row"
    | "no_shows_line = found_line rows"
    by (auto simp: report_lines_def)
  then show False
  proof cases
    case 1
    with header_line_length [of float_str rows] show False by (simp add: no_shows_line_length)
  next
    case 2
    with separator_line_length [of float_str rows] show False by (simp add: no_shows_line_length)
  next
    case (3 row)
    with row_line_length [of float_str rows row] show False by (simp add: no_shows_line_length)
  next
    case 4
    with found_line_differs [of rows] show False by simp
  qed
qed

lemma run_p2_first_missing:
  assumes "run_p2 st now = Inl name"
  shows "\<exists>rest. filter (\<lambda>n. table_count st n = None)
           [''Show'', ''Movie'', ''Hall'', ''Theater'', ''Booking'', ''Booking_Seat''] = name # rest"
  using assms by (auto simp: run_p2_def table_count_def split: option.splits)

lemma p2_result:
  assumes "db_file w = Some st"
    and "Show st = Some show_rows" "Movie st = Some movies" "Hall st = Some halls"
    and "Theater st = Some theaters" "Booking st = Some bookings"
    and "Booking_Seat st = Some booking_seats"
  shows "run_p2 st (today w) =
           Inr (map p2_select (p2_sorted show_rows movies halls theaters bookings booking_seats (today w)))"
    and "fst (execute_p2 w) =
           Inr (map p2_select (p2_sorted show_rows movies halls theaters bookings booking_seats (today w)))"
proof -
  show r: "run_p2 st (today w) =
           Inr (map p2_select (p2_sorted show_rows movies halls theaters bookings booking_seats (today w)))"
    using run_p2_present [OF assms(2-7), of "today w"] by (simp add: p2_rows_def)
  show "fst (execute_p2 w) =
           Inr (map p2_select (p2_sorted show_rows movies halls theaters bookings booking_seats (today w)))"
    using execute_p2_present [OF assms(1)] r by simp
qed

lemma p2_sorted_fst_iff:
  "x \<in> fst ` set (p2_sorted show_rows movies halls theaters bookings booking_seats now)
     \<longleftrightarrow> p2_matches show_rows movies halls theaters now x"
proof -
  obtain s m h t where x: "x = (((s, m), h), t)" by (metis prod.collapse)
  have "x \<in> fst ` set (p2_sorted show_rows movies halls theaters bookings booking_seats now)
      \<longleftrightarrow> (\<exists>k. (x, k) \<in> set (p2_sorted show_rows movies halls theaters bookings booking_seats now))"
    by force
  then show ?thesis
    unfolding x by (simp add: p2_sorted_iff p2_matches_def)
qed

lemma count_inner_join:
  "count_list (inner_join xs ys on) (x, y) =
     (if on x y then count_list xs x * count_list ys y else 0)"
proof (induction xs)
  case Nil
  then show ?case by (simp add: inner_join_def)
next
  case (Cons a xs)
  have "count_list (map (Pair a) (filter (on a) ys)) (x, y)
          = (if a = x \<and> on x y then count_list ys y else 0)"
    by (induction ys) auto
  moreover have "inner_join (a # xs) ys on = map (Pair a) (filter (on a) ys) @ inner_join xs ys on"
    by (simp add: inner_join_def)
  ultimately show ?case using Cons by simp
qed

lemma count_fst_sort_key:
  "length (filter (\<lambda>p. fst p = x) (sort_key f xs)) = length (filter (\<lambda>p. fst p = x) xs)"
proof (induction xs)
  case Nil
  then show ?case by simp
next
  case (Cons a xs)
  have "length (filter (\<lambda>p. fst p = x) (insort_key f a ys))
          = length (filter (\<lambda>p. fst p = x) (a # ys))" for ys
    by (induction ys) auto
  with Cons show ?case by simp
qed

lemma count_fst_tagged:
  "length (filter (\<lambda>p. fst p = x) (filter P (map (\<lambda>y. (y, g y)) ys)))
     = (if P (x, g x) then count_list ys x else 0)"
proof -
  have "filter (\<lambda>p. fst p = x) (filter P (map (\<lambda>y. (y, g y)) ys))
          = map (\<lambda>y. (y, g y)) (filter (\<lambda>y. P (y, g y) \<and> y = x) ys)"
    by (induction ys) (simp_all, blast)
  moreover have "length (filter (\<lambda>y. P (y, g y) \<and> y = x) ys)
          = (if P (x, g x) then count_list ys x else 0)"
    by (induction ys) auto
  ultimately show ?thesis by simp
qed

lemma p2_sorted_count:
  "length (filter (\<lambda>p. fst p = (((s, m), h), t))
             (p2_sorted show_rows movies halls theaters bookings booking_seats now))
     = (if p2_matches show_rows movies halls theaters now (((s, m), h), t)
        then count_list show_rows s * count_list movies m * count_list halls h * count_list theaters t
        else 0)"
proof -
  have "length (filter (\<lambda>p. fst p = (((s, m), h), t))
             (p2_sorted show_rows movies halls theaters bookings booking_seats now))
     = (if t_theater_name t = ''PVR: Nexus'' \<and> s_show_date s = now
            \<and> s_is_active s = 1 \<and> m_is_active m = 1
        then count_list
               (inner_join
                 (inner_join
                   (inner_join show_rows movies (\<lambda>s m. s_movie_id s = m_movie_id m))
                   halls (\<lambda>(s, m) h. s_hall_id s = h_hall_id h))
                 theaters (\<lambda>((s, m), h) t. h_theater_id h = t_theater_id t))
               (((s, m), h), t)
        else 0)"
    unfolding p2_sorted_def p2_from_eq count_fst_sort_key count_fst_tagged
    by (simp add: p2_where_def)
  also have "\<dots> = (if p2_matches show_rows movies halls theaters now (((s, m), h), t)
        then count_list show_rows s * count_list movies m * count_list halls h * count_list theaters t
        else 0)"
    by (auto simp: count_inner_join p2_matches_def count_list_0_iff)
  finally show ?thesis .
qed


lemma ex_tables:
  "db_file ex_world = Some ex_store" "today ex_world = ex_today"
  "Show ex_store = Some ex_shows" "Movie ex_store = Some [ex_dune, ex_old]"
  "Hall ex_store = Some [ex_hall_a, ex_hall_b]" "Theater ex_store = Some [ex_nexus, ex_inox]"
  "Booking ex_store = Some ex_bookings" "Booking_Seat ex_store = Some ex_booking_seats"
  by (simp_all add: ex_world_def ex_store_def)

lemma ex_low_tables:
  "db_file ex_low_world = Some ex_low_store" "today ex_low_world = ex_today"
  "Show ex_low_store = Some [ex_show 1 1 1 ex_today ''18:00:00'' 1]"
  "Movie ex_low_store = Some [ex_dune]" "Hall ex_low_store = Some [ex_low_hall]"
  "Theater ex_low_store = Some [ex_nexus]"
  "Booking ex_low_store = Some [\<lparr>b_booking_id = 1, b_show_id = 1, b_booking_status = ''Confirmed''\<rparr>]"
  "Booking_Seat ex_low_store = Some [\<lparr>bs_booking_id = 1, bs_seat_id = Some 1\<rparr>]"
  by (simp_all add: ex_low_world_def ex_low_store_def)

lemma ex_low_sorted:
  "p2_sorted [ex_show 1 1 1 ex_today ''18:00:00'' 1] [ex_dune] [ex_low_hall] [ex_nexus]
      [\<lparr>b_booking_id = 1, b_show_id = 1, b_booking_status = ''Confirmed''\<rparr>]
      [\<lparr>bs_booking_id = 1, bs_seat_id = Some 1\<rparr>] ex_today =
   [((((ex_show 1 1 1 ex_today ''18:00:00'' 1, ex_dune), ex_low_hall), ex_nexus),
       Some \<lparr>bk_show_id = 1, bk_booked_count = 1\<rparr>)]"
  by code_simp

section \<open>Teardown\<close>

text \<open>
  Claim C7. Teardown is idempotent. When the store file is present, teardown removes
  it and says so; when it is absent, teardown only prints the "not found" line and
  leaves everything else as it was; and so a second call right after a first one is
  always the "not found" case. \<open>teardown_database\<close> has no failing branch: it returns
  the world, never an error.
\<close>

theorem teardown_idempotent:
  "(db_file w \<noteq> None \<longrightarrow>
      teardown_database w =
        w\<lparr>db_file := None,
          trace := trace w @ [Remove, Print (''Database file '' @ quoted DB_FILE @ '' removed.'')]\<rparr>)
   \<and> (db_file w = None \<longrightarrow>
      teardown_database w =
        w\<lparr>trace := trace w @ [Print (''Database file '' @ quoted DB_FILE @ '' not found; nothing to remove.'')]\<rparr>)
   \<and> teardown_database (teardown_database w) =
        (teardown_database w)\<lparr>trace := trace (teardown_database w)
           @ [Print (''Database file '' @ quoted DB_FILE @ '' not found; nothing to remove.'')]\<rparr>"
  by (simp add: teardown_database_def py_print_def emit_def)

theorem teardown_idempotent_witness:
  "db_file ex_world \<noteq> None
   \<and> db_file (teardown_database ex_world) = None
   \<and> trace (teardown_database (teardown_database ex_world)) =
       [Remove,
        Print ''Database file 'movie_booking_system.db' removed.'',
        Print ''Database file 'movie_booking_system.db' not found; nothing to remove.'']"
proof -
  have present: "db_file ex_world \<noteq> None" by (simp add: ex_world_def)
  from teardown_idempotent [of ex_world] present
  have first: "teardown_database ex_world =
        ex_world\<lparr>db_file := None,
          trace := trace ex_world @ [Remove, Print (''Database file '' @ quoted DB_FILE @ '' removed.'')]\<rparr>"
    by blast
  from teardown_idempotent [of ex_world]
  have second: "teardown_database (teardown_database ex_world) =
        (teardown_database ex_world)\<lparr>trace := trace (teardown_database ex_world)
           @ [Print (''Database file '' @ quoted DB_FILE @ '' not found; nothing to remove.'')]\<rparr>"
    by blast
  show ?thesis
    unfolding second unfolding first
    by (simp add: ex_world_def quoted_def DB_FILE_def)
qed

section \<open>Missing resources\<close>

text \<open>
  Claim C8. When the schema file is absent, the Schema Loader prints its error line
  and raises \<^verbatim>\<open>SystemExit(1)\<close>; when the store file is absent, the Verifier and the
  Availability Reporter do the same with theirs. In each case the printed line is the
  only thing that happens: no connection is opened, no statement is executed, no file
  changes. Nothing in the script catches the exit, so a run of \<open>main\<close> that reaches
  one of these calls ends with status 1.
\<close>

theorem missing_resource_exits:
  "(schema_file w = None \<longrightarrow>
      setup_database run w =
        (Inl (SystemExit 1),
         w\<lparr>trace := trace w @ [Print (''ERROR: Schema file '' @ quoted SCHEMA_FILE @ '' not found.'')]\<rparr>)
      \<and> (arg_setup a \<longrightarrow> exit_status (main run float_str a w) = 1))
   \<and> (db_file w = None \<longrightarrow>
      verify_setup w =
        (Inl (SystemExit 1),
         w\<lparr>trace := trace w @ [Print (''ERROR: Database file '' @ quoted DB_FILE @ '' not found. Run --setup first.'')]\<rparr>)
      \<and> test_p2_query float_str w =
        (Inl (SystemExit 1),
         w\<lparr>trace := trace w @ [Print (''ERROR: Database file '' @ quoted DB_FILE @ '' not found. Run --setup first.'')]\<rparr>)
      \<and> (\<not> arg_setup a \<and> (arg_verify a \<or> arg_test_p2 a \<or> arg_test a) \<longrightarrow>
            exit_status (main run float_str a w) = 1))"
proof -
  have s: "setup_database run w =
        (Inl (SystemExit 1),
         w\<lparr>trace := trace w @ [Print (''ERROR: Schema file '' @ quoted SCHEMA_FILE @ '' not found.'')]\<rparr>)"
    if "schema_file w = None"
    using that by (simp add: setup_database_def py_print_def emit_def)
  have sm: "exit_status (main run float_str a w) = 1" if "schema_file w = None" "arg_setup a"
    using that s by (simp add: main_def step_def exit_status_def)
  have v: "verify_setup w =
        (Inl (SystemExit 1),
         w\<lparr>trace := trace w @ [Print (''ERROR: Database file '' @ quoted DB_FILE @ '' not found. Run --setup first.'')]\<rparr>)"
    if "db_file w = None"
    using that by (simp add: verify_setup_def py_print_def emit_def)
  have p: "test_p2_query float_str w =
        (Inl (SystemExit 1),
         w\<lparr>trace := trace w @ [Print (''ERROR: Database file '' @ quoted DB_FILE @ '' not found. Run --setup first.'')]\<rparr>)"
    if "db_file w = None"
    using that by (simp add: test_p2_query_def py_print_def emit_def)
  have r: "fst (run_all_tests float_str w) = Inl (SystemExit 1)" if "db_file w = None"
    using that by (simp add: run_all_tests_def verify_setup_def)
  have dm: "exit_status (main run float_str a w) = 1"
    if d: "db_file w = None" and ns: "\<not> arg_setup a"
      and fl: "arg_verify a \<or> arg_test_p2 a \<or> arg_test a"
  proof (cases "arg_verify a")
    case True
    with d ns v show ?thesis by (simp add: main_def step_def discard_def exit_status_def)
  next
    case nv: False
    show ?thesis
    proof (cases "arg_test_p2 a")
      case True
      with d ns nv p show ?thesis by (simp add: main_def step_def discard_def exit_status_def)
    next
      case False
      with fl nv have t: "arg_test a" by simp
      obtain w' where "run_all_tests float_str w = (Inl (SystemExit 1), w')"
        using r [OF d] by (cases "run_all_tests float_str w") simp
      with ns nv False t show ?thesis
        by (simp add: main_def step_def discard_def exit_status_def)
    qed
  qed
  from s sm v p dm show ?thesis by blast
qed

theorem missing_resource_exits_witness:
  "schema_file ex_bare_world = None \<and> db_file ex_bare_world = None
   \<and> setup_database ex_engine ex_bare_world =
       (Inl (SystemExit 1),
        ex_bare_world\<lparr>trace := [Print ''ERROR: Schema file 'movie_booking_schema_sqlite.sql' not found.'']\<rparr>)
   \<and> verify_setup ex_bare_world =
       (Inl (SystemExit 1),
        ex_bare_world\<lparr>trace := [Print ''ERROR: Database file 'movie_booking_system.db' not found. Run --setup first.'']\<rparr>)
   \<and> test_p2_query ex_float_str ex_bare_world =
       (Inl (SystemExit 1),
        ex_bare_world\<lparr>trace := [Print ''ERROR: Database file 'movie_booking_system.db' not found. Run --setup first.'']\<rparr>)
   \<and> exit_status (main ex_engine ex_float_str \<lparr>arg_setup = True, arg_verify = False, arg_test_p2 = False,
          arg_test = False, arg_teardown = False\<rparr> ex_bare_world) = 1
   \<and> exit_status (main ex_engine ex_float_str \<lparr>arg_setup = False, arg_verify = False, arg_test_p2 = False,
          arg_test = True, arg_teardown = False\<rparr> ex_bare_world) = 1"
proof -
  have a: "schema_file ex_bare_world = None" and b: "db_file ex_bare_world = None"
    and t: "trace ex_bare_world = []"
    by (simp_all add: ex_bare_world_def)
  show ?thesis
    using a b
      missing_resource_exits [where w = ex_bare_world and run = ex_engine
          and float_str = ex_float_str
          and a = "\<lparr>arg_setup = True, arg_verify = False,
          arg_test_p2 = False, arg_test = False, arg_teardown = False\<rparr>"]
      missing_resource_exits [where w = ex_bare_world and run = ex_engine
          and float_str = ex_float_str
          and a = "\<lparr>arg_setup = False, arg_verify = False,
          arg_test_p2 = False, arg_test = True, arg_teardown = False\<rparr>"]
    by (simp add: t quoted_def DB_FILE_def SCHEMA_FILE_def)
qed

section \<open>Verifier\<close>

text \<open>
  Claim C2. On a store that holds the six counted tables, the Verifier returns a
  boolean, and it returns false exactly when one of Theater, Movie, Hall, Seat and
  Booking has fewer rows than its minimum (2, 6, 5, 9, 3). The Show table has no part
  in it: with any other rows in Show the result is the same, and its line is printed
  with OK or WARN.
\<close>

theorem verify_setup_result:
  assumes "db_file w = Some st"
    and "Theater st = Some theaters" "Movie st = Some movies" "Hall st = Some halls"
    and "Seat st = Some seats" "Booking st = Some bookings" "Show st = Some shows"
  shows "(fst (verify_setup w) = Inr False \<longleftrightarrow>
            length theaters < 2 \<or> length movies < 6 \<or> length halls < 5
            \<or> length seats < 9 \<or> length bookings < 3)
     \<and> (fst (verify_setup w) = Inr True \<longleftrightarrow>
            \<not> (length theaters < 2 \<or> length movies < 6 \<or> length halls < 5
               \<or> length seats < 9 \<or> length bookings < 3))
     \<and> fst (verify_setup (w\<lparr>db_file := Some (st\<lparr>Show := Some shows'\<rparr>)\<rparr>)) = fst (verify_setup w)
     \<and> Print (count_line ''Show'' (int (length shows)) 20
                (if 20 \<le> length shows then ''OK'' else ''WARN''))
          \<in> set (trace (snd (verify_setup w)))"
proof -
  let ?low = "length theaters < 2 \<or> length movies < 6 \<or> length halls < 5
                \<or> length seats < 9 \<or> length bookings < 3"
  have v: "fst (verify_setup w) = Inr (\<not> ?low)"
    using assms by (rule verify_setup_present(1))
  let ?w' = "w\<lparr>db_file := Some (st\<lparr>Show := Some shows'\<rparr>)\<rparr>"
  have "fst (verify_setup ?w') = Inr (\<not> ?low)"
    by (rule verify_setup_present(1) [where st = "st\<lparr>Show := Some shows'\<rparr>" and show_rows = shows'])
       (simp_all add: assms)
  with v have same: "fst (verify_setup ?w') = fst (verify_setup w)" by simp
  have line: "Print (count_line ''Show'' (int (length shows)) 20
                (if 20 \<le> length shows then ''OK'' else ''WARN''))
          \<in> set (trace (snd (verify_setup w)))"
    using assms by (rule verify_setup_present(2))
  from v have f: "fst (verify_setup w) = Inr False \<longleftrightarrow> ?low" by simp
  from v have t: "fst (verify_setup w) = Inr True \<longleftrightarrow> \<not> ?low" by simp
  from f t same line show ?thesis by (intro conjI)
qed

theorem verify_setup_result_witness:
  "db_file ex_world = Some ex_store
   \<and> fst (verify_setup ex_world) = Inr False
   \<and> fst (verify_setup (ex_world\<lparr>db_file := Some (ex_store\<lparr>Show := Some []\<rparr>)\<rparr>)) = Inr False
   \<and> Print ''  Show: 7 rows (expected >= 20) [WARN]'' \<in> set (trace (snd (verify_setup ex_world)))"
proof -
  have h: "db_file ex_world = Some ex_store"
    "Theater ex_store = Some [ex_nexus, ex_inox]" "Movie ex_store = Some [ex_dune, ex_old]"
    "Hall ex_store = Some [ex_hall_a, ex_hall_b]" "Seat ex_store = Some ex_seats"
    "Booking ex_store = Some ex_bookings" "Show ex_store = Some ex_shows"
    by (simp_all add: ex_world_def ex_store_def)
  have l: "length ex_shows = 7" by (simp add: ex_shows_def)
  have c: "count_line ''Show'' 7 20 ''WARN'' = ''  Show: 7 rows (expected >= 20) [WARN]''"
    by (simp add: count_line_def str_int_def str_nat.simps)
  show ?thesis
    using verify_setup_result [OF h, of "[]"] h(1) l c by simp
qed

section \<open>Test Orchestrator\<close>

text \<open>
  Claim C6. When the Verifier returns, with true or with false, the Orchestrator goes
  on to the Availability Reporter: the P2 query is executed after the Verifier's last
  event. When the Reporter returns too, the Orchestrator returns the conjunction of
  the two results; when the Reporter raises, so does the Orchestrator.
\<close>

theorem run_all_tests_no_short_circuit:
  assumes "verify_setup (print_banner w) = (Inr ok, w1)"
  shows "Execute P2Query \<in> set (drop (length (trace w1)) (trace (snd (run_all_tests float_str w))))
     \<and> (\<forall>p2_ok w2. test_p2_query float_str (py_print [] w1) = (Inr p2_ok, w2) \<longrightarrow>
           run_all_tests float_str w =
             (Inr (p2_ok \<and> ok),
              py_print (if p2_ok \<and> ok then ''All tests passed.'' else ''Some tests failed.'')
                (py_print [] w2)))
     \<and> (\<forall>e w2. test_p2_query float_str (py_print [] w1) = (Inl e, w2) \<longrightarrow> run_all_tests float_str w = (Inl e, w2))"
proof -
  from assms have "db_file (print_banner w) \<noteq> None" by (rule verify_setup_returns_present)
  then obtain st where st: "db_file w = Some st" by auto
  from verify_setup_keeps [of "print_banner w"] assms st
  have w1: "db_file w1 = Some st" by simp
  then have p: "db_file (py_print [] w1) = Some st" by simp
  have ran: "Execute P2Query \<in> set (drop (length (trace w1)) (trace (snd (run_all_tests float_str w))))"
    using assms test_p2_query_present [OF p]
    by (cases "run_p2 st (today w1)") (simp_all add: run_all_tests_def)
  have both: "run_all_tests float_str w =
             (Inr (p2_ok \<and> ok),
              py_print (if p2_ok \<and> ok then ''All tests passed.'' else ''Some tests failed.'')
                (py_print [] w2))"
    if "test_p2_query float_str (py_print [] w1) = (Inr p2_ok, w2)" for p2_ok w2
    using assms that by (simp add: run_all_tests_def Let_def)
  have raised: "run_all_tests float_str w = (Inl e, w2)"
    if "test_p2_query float_str (py_print [] w1) = (Inl e, w2)" for e w2
    using assms that by (simp add: run_all_tests_def)
  from ran both raised show ?thesis by blast
qed

theorem run_all_tests_no_short_circuit_witness:
  "fst (verify_setup (print_banner ex_blank_world)) = Inr False
   \<and> Execute P2Query \<in> set (trace (snd (run_all_tests ex_float_str ex_blank_world)))
   \<and> fst (run_all_tests ex_float_str ex_blank_world) = Inr False"
proof -
  let ?w1 = "snd (verify_setup (print_banner ex_blank_world))"
  have "fst (verify_setup (print_banner ex_blank_world)) =
          Inr (\<not> (length ([] :: theater_row list) < 2 \<or> length ([] :: movie_row list) < 6
                  \<or> length ([] :: hall_row list) < 5 \<or> length ([] :: seat_row list) < 9
                  \<or> length ([] :: booking_row list) < 3))"
    by (rule verify_setup_present(1) [where st = ex_blank_store and show_rows = "[]"])
       (simp_all add: ex_blank_world_def ex_blank_store_def)
  then have f: "fst (verify_setup (print_banner ex_blank_world)) = Inr False" by simp
  then have v: "verify_setup (print_banner ex_blank_world) = (Inr False, ?w1)"
    by (metis prod.collapse)
  note t = run_all_tests_no_short_circuit [OF v, of ex_float_str]
  from t have ran: "Execute P2Query \<in> set (trace (snd (run_all_tests ex_float_str ex_blank_world)))"
    by (blast dest: in_set_dropD)
  obtain r w2 where q: "test_p2_query ex_float_str (py_print [] ?w1) = (r, w2)"
    by (cases "test_p2_query ex_float_str (py_print [] ?w1)")
  have "fst (test_p2_query ex_float_str (py_print [] ?w1)) \<noteq> Inl e" for e
  proof -
    have d: "db_file (py_print [] ?w1) = Some ex_blank_store"
      using verify_setup_keeps [of "print_banner ex_blank_world"]
      by (simp add: ex_blank_world_def)
    have "run_p2 ex_blank_store (today (py_print [] ?w1)) =
            Inr (p2_rows [] [] [] [] [] [] (today (py_print [] ?w1)))"
      by (simp add: run_p2_def ex_blank_store_def)
    with test_p2_query_present [OF d, of ex_float_str] show ?thesis by simp
  qed
  with q obtain p2_ok where "r = Inr p2_ok" by (cases r) auto
  with q t have "run_all_tests ex_float_str ex_blank_world =
      (Inr (p2_ok \<and> False),
       py_print (if p2_ok \<and> False then ''All tests passed.'' else ''Some tests failed.'')
         (py_print [] w2))"
    by blast
  then have "fst (run_all_tests ex_float_str ex_blank_world) = Inr False" by simp
  with f ran show ?thesis by simp
qed

section \<open>The Reporter's success indicator\<close>

text \<open>
  Claim C10. The Availability Reporter never returns false. On a store on which the
  P2 query can be executed (the file is there and holds the six tables the query
  reads), it returns true whatever rows come back, and the result of the Orchestrator
  is then the result of the Verifier: the same boolean, or the same error.
\<close>

theorem reporter_never_false:
  "fst (test_p2_query float_str w) \<noteq> Inr False
   \<and> (\<forall>st rows. db_file w = Some st \<and> run_p2 st (today w) = Inr rows \<longrightarrow>
        fst (test_p2_query float_str w) = Inr True
        \<and> fst (run_all_tests float_str w) = fst (verify_setup (print_banner w)))"
proof -
  have a: "fst (test_p2_query float_str w) \<noteq> Inr False"
  proof (cases "db_file w")
    case None
    then show ?thesis by (simp add: test_p2_query_def)
  next
    case (Some st)
    show ?thesis using test_p2_query_present [OF Some]
      by (cases "run_p2 st (today w)") simp_all
  qed
  have b: "fst (test_p2_query float_str w) = Inr True
        \<and> fst (run_all_tests float_str w) = fst (verify_setup (print_banner w))"
    if st: "db_file w = Some st" and rows: "run_p2 st (today w) = Inr rows" for st rows
  proof -
    have t: "fst (test_p2_query float_str w) = Inr True"
      using test_p2_query_present [OF st] rows by simp
    obtain r w1 where v: "verify_setup (print_banner w) = (r, w1)"
      by (cases "verify_setup (print_banner w)")
    from verify_setup_keeps [of "print_banner w"] v st
    have k: "db_file (py_print [] w1) = Some st" "today (py_print [] w1) = today w" by simp_all
    have "fst (run_all_tests float_str w) = r"
    proof (cases r)
      case (Inl e)
      with v show ?thesis by (simp add: run_all_tests_def)
    next
      case (Inr ok)
      with v test_p2_query_present [OF k(1)] k(2) rows show ?thesis
        by (simp add: run_all_tests_def)
    qed
    with t v show ?thesis by simp
  qed
  from a b show ?thesis by blast
qed

theorem reporter_never_false_witness:
  "db_file ex_world = Some ex_store
   \<and> run_p2 ex_store (today ex_world) =
       Inr (p2_rows ex_shows [ex_dune, ex_old] [ex_hall_a, ex_hall_b] [ex_nexus, ex_inox]
               ex_bookings ex_booking_seats ex_today)
   \<and> fst (test_p2_query ex_float_str ex_world) = Inr True
   \<and> fst (run_all_tests ex_float_str ex_world) = fst (verify_setup (print_banner ex_world))"
proof -
  have d: "db_file ex_world = Some ex_store" by (simp add: ex_world_def)
  have r: "run_p2 ex_store (today ex_world) =
       Inr (p2_rows ex_shows [ex_dune, ex_old] [ex_hall_a, ex_hall_b] [ex_nexus, ex_inox]
               ex_bookings ex_booking_seats ex_today)"
    by (simp add: run_p2_def ex_store_def ex_world_def)
  from reporter_never_false [of ex_float_str ex_world] d r show ?thesis by blast
qed

section \<open>Availability Reporter: the rows of the result\<close>

text \<open>
  On a store that holds the six tables of the query, the rows that the Reporter fetches
  are the projections, by the SELECT list, of a list \<open>js\<close> of joined rows: a show with
  its movie, its hall, the hall's theater and the show's row of the \<open>booked_seats\<close>
  aggregate, if it has one. The claims about the shows of the result are stated on
  this list, for the query as the Reporter executes it.
\<close>

text \<open>
  Claim C3. The result holds exactly the shows that pass the filter: a show, joined to
  its movie, its hall and the hall's theater, is in the result if and only if the
  theater's name is \<open>PVR: Nexus\<close>, the show's date is the value of \<^verbatim>\<open>date('now')\<close>, and
  the \<open>is_active\<close> flags of the show and of the movie are both 1. A show that fails
  one of the four conditions is not in the result; one that meets them is there as
  many times as the tables hold its rows.
\<close>

theorem p2_filter_exact:
  assumes "db_file w = Some st"
    and "Show st = Some show_rows" "Movie st = Some movies" "Hall st = Some halls"
    and "Theater st = Some theaters" "Booking st = Some bookings"
    and "Booking_Seat st = Some booking_seats"
  shows "\<exists>js. run_p2 st (today w) = Inr (map p2_select js)
     \<and> fst (execute_p2 w) = Inr (map p2_select js)
     \<and> (\<forall>s m h t. (\<exists>k. ((((s, m), h), t), k) \<in> set js) \<longleftrightarrow>
           (s \<in> set show_rows \<and> m \<in> set movies \<and> h \<in> set halls \<and> t \<in> set theaters
            \<and> s_movie_id s = m_movie_id m \<and> s_hall_id s = h_hall_id h
            \<and> h_theater_id h = t_theater_id t)
           \<and> t_theater_name t = ''PVR: Nexus'' \<and> s_show_date s = today w
           \<and> s_is_active s = 1 \<and> m_is_active m = 1)
     \<and> (\<forall>s m h t. length (filter (\<lambda>p. fst p = (((s, m), h), t)) js) =
           (if (s \<in> set show_rows \<and> m \<in> set movies \<and> h \<in> set halls \<and> t \<in> set theaters
                \<and> s_movie_id s = m_movie_id m \<and> s_hall_id s = h_hall_id h
                \<and> h_theater_id h = t_theater_id t)
               \<and> t_theater_name t = ''PVR: Nexus'' \<and> s_show_date s = today w
               \<and> s_is_active s = 1 \<and> m_is_active m = 1
            then count_list show_rows s * count_list movies m * count_list halls h
                   * count_list theaters t
            else 0))"
proof -
  let ?js = "p2_sorted show_rows movies halls theaters bookings booking_seats (today w)"
  have r: "run_p2 st (today w) = Inr (map p2_select ?js)"
    and e: "fst (execute_p2 w) = Inr (map p2_select ?js)"
    using assms by (rule p2_result)+
  have m: "(\<exists>k. ((((s, m), h), t), k) \<in> set ?js) \<longleftrightarrow>
           (s \<in> set show_rows \<and> m \<in> set movies \<and> h \<in> set halls \<and> t \<in> set theaters
            \<and> s_movie_id s = m_movie_id m \<and> s_hall_id s = h_hall_id h
            \<and> h_theater_id h = t_theater_id t)
           \<and> t_theater_name t = ''PVR: Nexus'' \<and> s_show_date s = today w
           \<and> s_is_active s = 1 \<and> m_is_active m = 1" for s m h t
    by (simp add: p2_sorted_iff)
  have c: "length (filter (\<lambda>p. fst p = (((s, m), h), t)) ?js) =
           (if (s \<in> set show_rows \<and> m \<in> set movies \<and> h \<in> set halls \<and> t \<in> set theaters
                \<and> s_movie_id s = m_movie_id m \<and> s_hall_id s = h_hall_id h
                \<and> h_theater_id h = t_theater_id t)
               \<and> t_theater_name t = ''PVR: Nexus'' \<and> s_show_date s = today w
               \<and> s_is_active s = 1 \<and> m_is_active m = 1
            then count_list show_rows s * count_list movies m * count_list halls h
                   * count_list theaters t
            else 0)" for s m h t
    unfolding p2_sorted_count by (simp add: p2_matches_def)
  from r e m c show ?thesis by blast
qed

theorem p2_filter_exact_witness:
  "\<exists>js. run_p2 ex_store (today ex_world) = Inr (map p2_select js)
     \<and> fst (execute_p2 ex_world) = Inr (map p2_select js)
     \<and> length (filter (\<lambda>p. fst p = (((ex_show 7 1 1 ex_today ''21:00:00'' 1, ex_dune), ex_hall_a), ex_nexus)) js) = 1
     \<and> length (filter (\<lambda>p. fst p = (((ex_show 3 2 1 ex_today ''12:00:00'' 1, ex_old), ex_hall_a), ex_nexus)) js) = 0
     \<and> length (filter (\<lambda>p. fst p = (((ex_show 4 1 2 ex_today ''12:00:00'' 1, ex_dune), ex_hall_b), ex_inox)) js) = 0
     \<and> length (filter (\<lambda>p. fst p = (((ex_show 5 1 1 ''2026-11-04'' ''12:00:00'' 1, ex_dune), ex_hall_a), ex_nexus)) js) = 0
     \<and> length (filter (\<lambda>p. fst p = (((ex_show 6 1 1 ex_today ''13:00:00'' 0, ex_dune), ex_hall_a), ex_nexus)) js) = 0"
proof -
  from p2_filter_exact [OF ex_tables(1) ex_tables(3-8)]
  obtain js where r: "run_p2 ex_store (today ex_world) = Inr (map p2_select js)"
    and e: "fst (execute_p2 ex_world) = Inr (map p2_select js)"
    and c: "\<And>s m h t. length (filter (\<lambda>p. fst p = (((s, m), h), t)) js) =
           (if (s \<in> set ex_shows \<and> m \<in> set [ex_dune, ex_old] \<and> h \<in> set [ex_hall_a, ex_hall_b]
                \<and> t \<in> set [ex_nexus, ex_inox]
                \<and> s_movie_id s = m_movie_id m \<and> s_hall_id s = h_hall_id h
                \<and> h_theater_id h = t_theater_id t)
               \<and> t_theater_name t = ''PVR: Nexus'' \<and> s_show_date s = today ex_world
               \<and> s_is_active s = 1 \<and> m_is_active m = 1
            then count_list ex_shows s * count_list [ex_dune, ex_old] m
                   * count_list [ex_hall_a, ex_hall_b] h * count_list [ex_nexus, ex_inox] t
            else 0)"
    by blast
  have c7: "length (filter (\<lambda>p. fst p = (((ex_show 7 1 1 ex_today ''21:00:00'' 1, ex_dune), ex_hall_a), ex_nexus)) js) = 1"
    unfolding c ex_tables(2) by code_simp
  have c3: "length (filter (\<lambda>p. fst p = (((ex_show 3 2 1 ex_today ''12:00:00'' 1, ex_old), ex_hall_a), ex_nexus)) js) = 0"
    unfolding c ex_tables(2) by code_simp
  have c4: "length (filter (\<lambda>p. fst p = (((ex_show 4 1 2 ex_today ''12:00:00'' 1, ex_dune), ex_hall_b), ex_inox)) js) = 0"
    unfolding c ex_tables(2) by code_simp
  have c5: "length (filter (\<lambda>p. fst p = (((ex_show 5 1 1 ''2026-11-04'' ''12:00:00'' 1, ex_dune), ex_hall_a), ex_nexus)) js) = 0"
    unfolding c ex_tables(2) by code_simp
  have c6: "length (filter (\<lambda>p. fst p = (((ex_show 6 1 1 ex_today ''13:00:00'' 0, ex_dune), ex_hall_a), ex_nexus)) js) = 0"
    unfolding c ex_tables(2) by code_simp
  from r e c7 c3 c4 c5 c6 show ?thesis by blast
qed



text \<open>
  Claim C5. A show that passes the filter and has no Confirmed booking has no row in
  the \<open>booked_seats\<close> aggregate; the left join keeps it, with NULL for the aggregate,
  and \<^verbatim>\<open>COALESCE\<close> makes the booked count 0: the Reporter fetches the row of the show,
  with all the seats of its hall available.
\<close>

theorem p2_retains_unbooked:
  assumes "db_file w = Some st"
    and "Show st = Some show_rows" "Movie st = Some movies" "Hall st = Some halls"
    and "Theater st = Some theaters" "Booking st = Some bookings"
    and "Booking_Seat st = Some booking_seats"
    and "s \<in> set show_rows" "m \<in> set movies" "h \<in> set halls" "t \<in> set theaters"
    and "s_movie_id s = m_movie_id m" "s_hall_id s = h_hall_id h" "h_theater_id h = t_theater_id t"
    and "t_theater_name t = ''PVR: Nexus''" "s_show_date s = today w"
    and "s_is_active s = 1" "m_is_active m = 1"
    and "\<forall>b\<in>set bookings. b_show_id b = s_show_id s \<longrightarrow> b_booking_status b \<noteq> ''Confirmed''"
    and "- (2 ^ 63) \<le> h_seating_capacity h" "h_seating_capacity h < 2 ^ 63"
  shows "\<exists>js. run_p2 st (today w) = Inr (map p2_select js)
     \<and> fst (execute_p2 w) = Inr (map p2_select js)
     \<and> s_show_id s \<notin> bk_show_id ` set (booked_seats bookings booking_seats)
     \<and> ((((s, m), h), t), None) \<in> set js
     \<and> coalesce0 (map_option bk_booked_count None) = 0
     \<and> \<lparr>movie_title = m_title m, language = m_language m, format = m_format m,
          rating = m_rating m, hall_name = h_hall_name h, show_timing = s_start_time s,
          base_price = s_base_price s,
          available_seats = SqlInteger (h_seating_capacity h)\<rparr> \<in> set (map p2_select js)"
proof -
  let ?js = "p2_sorted show_rows movies halls theaters bookings booking_seats (today w)"
  have r: "run_p2 st (today w) = Inr (map p2_select ?js)"
    and e: "fst (execute_p2 w) = Inr (map p2_select ?js)"
    using assms(1-7) by (rule p2_result)+
  have nokey: "s_show_id s \<notin> bk_show_id ` set (booked_seats bookings booking_seats)"
    using assms(19) by (rule booked_seats_no_key)
  then have "find (\<lambda>k. s_show_id s = bk_show_id k) (booked_seats bookings booking_seats) = None"
    by (rule find_no_key)
  with assms(8-18) have mem: "((((s, m), h), t), None) \<in> set ?js"
    by (simp add: p2_sorted_iff)
  have "p2_select ((((s, m), h), t), None) =
          \<lparr>movie_title = m_title m, language = m_language m, format = m_format m,
           rating = m_rating m, hall_name = h_hall_name h, show_timing = s_start_time s,
           base_price = s_base_price s,
           available_seats = SqlInteger (h_seating_capacity h)\<rparr>"
    using assms(20,21) by (simp add: p2_select_def coalesce0_def sql_sub_def)
  with mem have row: "\<lparr>movie_title = m_title m, language = m_language m, format = m_format m,
          rating = m_rating m, hall_name = h_hall_name h, show_timing = s_start_time s,
          base_price = s_base_price s,
          available_seats = SqlInteger (h_seating_capacity h)\<rparr> \<in> set (map p2_select ?js)"
    by (metis (no_types, lifting) image_eqI list.set_map)
  have z: "coalesce0 (map_option bk_booked_count None) = 0" by (simp add: coalesce0_def)
  from r e nokey mem z row show ?thesis by blast
qed

theorem p2_retains_unbooked_witness:
  "\<exists>js. run_p2 ex_store (today ex_world) = Inr (map p2_select js)
     \<and> fst (execute_p2 ex_world) = Inr (map p2_select js)
     \<and> ((((ex_show 7 1 1 ex_today ''21:00:00'' 1, ex_dune), ex_hall_a), ex_nexus), None) \<in> set js
     \<and> \<lparr>movie_title = ''Dune'', language = ''English'', format = ''2D'', rating = ''UA'',
          hall_name = ''Hall A'', show_timing = ''21:00:00'', base_price = ''250.0'',
          available_seats = SqlInteger 50\<rparr> \<in> set (map p2_select js)"
proof -
  have nb: "\<forall>b\<in>set ex_bookings. b_show_id b = s_show_id (ex_show 7 1 1 ex_today ''21:00:00'' 1)
              \<longrightarrow> b_booking_status b \<noteq> ''Confirmed''"
    by (simp add: ex_bookings_def ex_show_def)
  have c: "ex_show 7 1 1 ex_today ''21:00:00'' 1 \<in> set ex_shows" "ex_dune \<in> set [ex_dune, ex_old]"
    "ex_hall_a \<in> set [ex_hall_a, ex_hall_b]" "ex_nexus \<in> set [ex_nexus, ex_inox]"
    "s_movie_id (ex_show 7 1 1 ex_today ''21:00:00'' 1) = m_movie_id ex_dune"
    "s_hall_id (ex_show 7 1 1 ex_today ''21:00:00'' 1) = h_hall_id ex_hall_a"
    "h_theater_id ex_hall_a = t_theater_id ex_nexus"
    "t_theater_name ex_nexus = ''PVR: Nexus''"
    "s_show_date (ex_show 7 1 1 ex_today ''21:00:00'' 1) = today ex_world"
    "s_is_active (ex_show 7 1 1 ex_today ''21:00:00'' 1) = 1" "m_is_active ex_dune = 1"
    by (simp_all add: ex_shows_def ex_show_def ex_dune_def ex_hall_a_def ex_nexus_def ex_tables(2))
  have cap: "- (2 ^ 63) \<le> h_seating_capacity ex_hall_a" "h_seating_capacity ex_hall_a < 2 ^ 63"
    by (simp_all add: ex_hall_a_def)
  from p2_retains_unbooked [OF ex_tables(1) ex_tables(3-8) c nb cap]
  obtain js where r: "run_p2 ex_store (today ex_world) = Inr (map p2_select js)"
    and e: "fst (execute_p2 ex_world) = Inr (map p2_select js)"
    and mem: "((((ex_show 7 1 1 ex_today ''21:00:00'' 1, ex_dune), ex_hall_a), ex_nexus), None) \<in> set js"
    and row: "\<lparr>movie_title = m_title ex_dune, language = m_language ex_dune, format = m_format ex_dune,
          rating = m_rating ex_dune, hall_name = h_hall_name ex_hall_a,
          show_timing = s_start_time (ex_show 7 1 1 ex_today ''21:00:00'' 1),
          base_price = s_base_price (ex_show 7 1 1 ex_today ''21:00:00'' 1),
          available_seats = SqlInteger (h_seating_capacity ex_hall_a)\<rparr> \<in> set (map p2_select js)"
    by blast
  have "\<lparr>movie_title = m_title ex_dune, language = m_language ex_dune, format = m_format ex_dune,
          rating = m_rating ex_dune, hall_name = h_hall_name ex_hall_a,
          show_timing = s_start_time (ex_show 7 1 1 ex_today ''21:00:00'' 1),
          base_price = s_base_price (ex_show 7 1 1 ex_today ''21:00:00'' 1),
          available_seats = SqlInteger (h_seating_capacity ex_hall_a)\<rparr>
        = \<lparr>movie_title = ''Dune'', language = ''English'', format = ''2D'', rating = ''UA'',
          hall_name = ''Hall A'', show_timing = ''21:00:00'', base_price = ''250.0'',
          available_seats = SqlInteger 50\<rparr>"
    by (simp add: ex_dune_def ex_hall_a_def ex_show_def)
  with row have row': "\<lparr>movie_title = ''Dune'', language = ''English'', format = ''2D'', rating = ''UA'',
          hall_name = ''Hall A'', show_timing = ''21:00:00'', base_price = ''250.0'',
          available_seats = SqlInteger 50\<rparr> \<in> set (map p2_select js)"
    by simp
  from r e mem row' show ?thesis by blast
qed

text \<open>
  Claim C1, as the specification states it, fails: \<^verbatim>\<open>COUNT(bs.seat_id)\<close> counts the rows
  of \<open>Booking_Seat\<close> joined to Confirmed bookings of the show, not the distinct seats.
  In the sample store show 2, the show of 10:00, has two Confirmed bookings that both
  hold seat 1: the hall has 50 seats, one distinct seat is booked, and the row that the
  Reporter fetches says 48.
\<close>

theorem available_seats_distinct_counterexample:
  "fst (execute_p2 ex_world) =
     Inr [\<lparr>movie_title = ''Dune'', language = ''English'', format = ''2D'', rating = ''UA'',
            hall_name = ''Hall A'', show_timing = ''10:00:00'', base_price = ''250.0'',
            available_seats = SqlInteger 48\<rparr>,
          \<lparr>movie_title = ''Dune'', language = ''English'', format = ''2D'', rating = ''UA'',
            hall_name = ''Hall A'', show_timing = ''18:00:00'', base_price = ''250.0'',
            available_seats = SqlInteger 47\<rparr>,
          \<lparr>movie_title = ''Dune'', language = ''English'', format = ''2D'', rating = ''UA'',
            hall_name = ''Hall A'', show_timing = ''21:00:00'', base_price = ''250.0'',
            available_seats = SqlInteger 50\<rparr>]
   \<and> p2_sorted ex_shows [ex_dune, ex_old] [ex_hall_a, ex_hall_b] [ex_nexus, ex_inox]
        ex_bookings ex_booking_seats (today ex_world) ! 0
      = ((((ex_show 2 1 1 ex_today ''10:00:00'' 1, ex_dune), ex_hall_a), ex_nexus),
          Some \<lparr>bk_show_id = 2, bk_booked_count = 2\<rparr>)
   \<and> confirmed_seat_ids ex_bookings ex_booking_seats
        (s_show_id (ex_show 2 1 1 ex_today ''10:00:00'' 1)) = [1, 1]
   \<and> SqlInteger (h_seating_capacity ex_hall_a
        - int (card (set (confirmed_seat_ids ex_bookings ex_booking_seats
                            (s_show_id (ex_show 2 1 1 ex_today ''10:00:00'' 1))))))
      = SqlInteger 49"
proof -
  have a: "fst (execute_p2 ex_world) =
     Inr [\<lparr>movie_title = ''Dune'', language = ''English'', format = ''2D'', rating = ''UA'',
            hall_name = ''Hall A'', show_timing = ''10:00:00'', base_price = ''250.0'',
            available_seats = SqlInteger 48\<rparr>,
          \<lparr>movie_title = ''Dune'', language = ''English'', format = ''2D'', rating = ''UA'',
            hall_name = ''Hall A'', show_timing = ''18:00:00'', base_price = ''250.0'',
            available_seats = SqlInteger 47\<rparr>,
          \<lparr>movie_title = ''Dune'', language = ''English'', format = ''2D'', rating = ''UA'',
            hall_name = ''Hall A'', show_timing = ''21:00:00'', base_price = ''250.0'',
            available_seats = SqlInteger 50\<rparr>]"
    using execute_p2_present [OF ex_tables(1)] run_p2_present [OF ex_tables(3-8), of "today ex_world"]
    by (simp add: ex_tables(2) ex_rows)
  have b: "p2_sorted ex_shows [ex_dune, ex_old] [ex_hall_a, ex_hall_b] [ex_nexus, ex_inox]
        ex_bookings ex_booking_seats (today ex_world) ! 0
      = ((((ex_show 2 1 1 ex_today ''10:00:00'' 1, ex_dune), ex_hall_a), ex_nexus),
          Some \<lparr>bk_show_id = 2, bk_booked_count = 2\<rparr>)"
    by (simp add: ex_tables(2) ex_sorted)
  have id: "s_show_id (ex_show 2 1 1 ex_today ''10:00:00'' 1) = 2" by (simp add: ex_show_def)
  have c: "confirmed_seat_ids ex_bookings ex_booking_seats
        (s_show_id (ex_show 2 1 1 ex_today ''10:00:00'' 1)) = [1, 1]"
    unfolding id by (rule ex_seat_ids(2))
  have d: "SqlInteger (h_seating_capacity ex_hall_a
        - int (card (set (confirmed_seat_ids ex_bookings ex_booking_seats
                            (s_show_id (ex_show 2 1 1 ex_today ''10:00:00'' 1))))))
      = SqlInteger 49"
    unfolding c by (simp add: ex_hall_a_def)
  from a b c d show ?thesis by (intro conjI)
qed

text \<open>
  Claim C1, amended. For every row that the Reporter fetches, \<open>available_seats\<close> is the
  capacity of the show's hall minus the number of seat attachments of the show's
  Confirmed bookings (a seat attached to two such bookings counts twice), as long as
  this difference is a 64-bit integer; when it is not, the value is the REAL that SQLite
  gives for the subtraction. When no seat is attached twice, the number subtracted is
  the number of distinct seats; when the show has no Confirmed booking, the value is
  the capacity.
\<close>

theorem available_seats_counts_attachments:
  assumes "db_file w = Some st"
    and "Show st = Some show_rows" "Movie st = Some movies" "Hall st = Some halls"
    and "Theater st = Some theaters" "Booking st = Some bookings"
    and "Booking_Seat st = Some booking_seats"
    and "js = p2_sorted show_rows movies halls theaters bookings booking_seats (today w)"
  shows "run_p2 st (today w) = Inr (map p2_select js)
     \<and> fst (execute_p2 w) = Inr (map p2_select js)
     \<and> (\<forall>x. x \<in> fst ` set js \<longleftrightarrow> p2_matches show_rows movies halls theaters (today w) x)
     \<and> (\<forall>i<length js. \<forall>s m h t k. js ! i = ((((s, m), h), t), k) \<longrightarrow>
          (- (2 ^ 63)
              \<le> h_seating_capacity h
                  - int (length (confirmed_seat_ids bookings booking_seats (s_show_id s)))
            \<and> h_seating_capacity h
                  - int (length (confirmed_seat_ids bookings booking_seats (s_show_id s))) < 2 ^ 63 \<longrightarrow>
             available_seats (map p2_select js ! i) =
               SqlInteger (h_seating_capacity h
                  - int (length (confirmed_seat_ids bookings booking_seats (s_show_id s))))
             \<and> (distinct (confirmed_seat_ids bookings booking_seats (s_show_id s)) \<longrightarrow>
                  available_seats (map p2_select js ! i) =
                    SqlInteger (h_seating_capacity h
                      - int (card (set (confirmed_seat_ids bookings booking_seats (s_show_id s))))))
             \<and> ((\<forall>b\<in>set bookings. b_show_id b = s_show_id s \<longrightarrow> b_booking_status b \<noteq> ''Confirmed'') \<longrightarrow>
                  available_seats (map p2_select js ! i) = SqlInteger (h_seating_capacity h)))
          \<and> (\<not> (- (2 ^ 63)
                   \<le> h_seating_capacity h
                       - int (length (confirmed_seat_ids bookings booking_seats (s_show_id s)))
                 \<and> h_seating_capacity h
                       - int (length (confirmed_seat_ids bookings booking_seats (s_show_id s))) < 2 ^ 63) \<longrightarrow>
             available_seats (map p2_select js ! i) =
               SqlReal (h_seating_capacity h)
                 (int (length (confirmed_seat_ids bookings booking_seats (s_show_id s))))))"
proof -
  have r: "run_p2 st (today w) = Inr (map p2_select js)"
    and e: "fst (execute_p2 w) = Inr (map p2_select js)"
    unfolding assms(8) using assms(1-7) by (rule p2_result)+
  have mt: "\<forall>x. x \<in> fst ` set js \<longleftrightarrow> p2_matches show_rows movies halls theaters (today w) x"
    unfolding assms(8) by (simp add: p2_sorted_fst_iff)
  have p: "(- (2 ^ 63)
              \<le> h_seating_capacity h
                  - int (length (confirmed_seat_ids bookings booking_seats (s_show_id s)))
            \<and> h_seating_capacity h
                  - int (length (confirmed_seat_ids bookings booking_seats (s_show_id s))) < 2 ^ 63 \<longrightarrow>
             available_seats (map p2_select js ! i) =
               SqlInteger (h_seating_capacity h
                  - int (length (confirmed_seat_ids bookings booking_seats (s_show_id s))))
             \<and> (distinct (confirmed_seat_ids bookings booking_seats (s_show_id s)) \<longrightarrow>
                  available_seats (map p2_select js ! i) =
                    SqlInteger (h_seating_capacity h
                      - int (card (set (confirmed_seat_ids bookings booking_seats (s_show_id s))))))
             \<and> ((\<forall>b\<in>set bookings. b_show_id b = s_show_id s \<longrightarrow> b_booking_status b \<noteq> ''Confirmed'') \<longrightarrow>
                  available_seats (map p2_select js ! i) = SqlInteger (h_seating_capacity h)))
          \<and> (\<not> (- (2 ^ 63)
                   \<le> h_seating_capacity h
                       - int (length (confirmed_seat_ids bookings booking_seats (s_show_id s)))
                 \<and> h_seating_capacity h
                       - int (length (confirmed_seat_ids bookings booking_seats (s_show_id s))) < 2 ^ 63) \<longrightarrow>
             available_seats (map p2_select js ! i) =
               SqlReal (h_seating_capacity h)
                 (int (length (confirmed_seat_ids bookings booking_seats (s_show_id s)))))"
    (is "(?A \<longrightarrow> ?X \<and> (?D \<longrightarrow> ?Y) \<and> (?Z \<longrightarrow> ?W)) \<and> (\<not> ?A \<longrightarrow> ?V)")
    if i: "i < length js" and x: "js ! i = ((((s, m), h), t), k)" for i s m h t k
  proof -
    from i have "js ! i \<in> set js" by (rule nth_mem)
    with x have "((((s, m), h), t), k) \<in> set js" by simp
    then have "k = find (\<lambda>k. s_show_id s = bk_show_id k) (booked_seats bookings booking_seats)"
      unfolding assms(8) by (simp add: p2_sorted_iff)
    moreover from i x have "map p2_select js ! i = p2_select ((((s, m), h), t), k)" by simp
    ultimately have a: "available_seats (map p2_select js ! i) =
             sql_sub (h_seating_capacity h)
               (int (length (confirmed_seat_ids bookings booking_seats (s_show_id s))))"
      by (simp only: available_seats_select)
    have inr: ?X if ?A
      unfolding a sql_sub_def using that by (simp only: if_True simp_thms)
    have dst: ?Y if ?A ?D
    proof -
      from that(2) have "card (set (confirmed_seat_ids bookings booking_seats (s_show_id s)))
                  = length (confirmed_seat_ids bookings booking_seats (s_show_id s))"
        by (rule distinct_card)
      with inr [OF that(1)] show ?thesis by (simp only:)
    qed
    have zero: ?W if ?A ?Z
    proof -
      from that(2) have "confirmed_seat_ids bookings booking_seats (s_show_id s) = []"
        by (rule confirmed_seat_ids_none)
      with inr [OF that(1)] show ?thesis by simp
    qed
    have out: ?V if "\<not> ?A"
      unfolding a sql_sub_def using that by (simp only: if_False simp_thms)
    show ?thesis
    proof (intro conjI impI)
      assume ?A
      then show ?X by (rule inr)
    next
      assume ?A ?D
      then show ?Y by (rule dst)
    next
      assume ?A ?Z
      then show ?W by (rule zero)
    next
      assume "\<not> ?A"
      then show ?V by (rule out)
    qed
  qed
  have q: "\<forall>i<length js. \<forall>s m h t k. js ! i = ((((s, m), h), t), k) \<longrightarrow>
          (- (2 ^ 63)
              \<le> h_seating_capacity h
                  - int (length (confirmed_seat_ids bookings booking_seats (s_show_id s)))
            \<and> h_seating_capacity h
                  - int (length (confirmed_seat_ids bookings booking_seats (s_show_id s))) < 2 ^ 63 \<longrightarrow>
             available_seats (map p2_select js ! i) =
               SqlInteger (h_seating_capacity h
                  - int (length (confirmed_seat_ids bookings booking_seats (s_show_id s))))
             \<and> (distinct (confirmed_seat_ids bookings booking_seats (s_show_id s)) \<longrightarrow>
                  available_seats (map p2_select js ! i) =
                    SqlInteger (h_seating_capacity h
                      - int (card (set (confirmed_seat_ids bookings booking_seats (s_show_id s))))))
             \<and> ((\<forall>b\<in>set bookings. b_show_id b = s_show_id s \<longrightarrow> b_booking_status b \<noteq> ''Confirmed'') \<longrightarrow>
                  available_seats (map p2_select js ! i) = SqlInteger (h_seating_capacity h)))
          \<and> (\<not> (- (2 ^ 63)
                   \<le> h_seating_capacity h
                       - int (length (confirmed_seat_ids bookings booking_seats (s_show_id s)))
                 \<and> h_seating_capacity h
                       - int (length (confirmed_seat_ids bookings booking_seats (s_show_id s))) < 2 ^ 63) \<longrightarrow>
             available_seats (map p2_select js ! i) =
               SqlReal (h_seating_capacity h)
                 (int (length (confirmed_seat_ids bookings booking_seats (s_show_id s)))))"
    by (intro allI impI) (rule p; assumption)
  from r e mt q show ?thesis by (intro conjI)
qed

theorem available_seats_counts_attachments_witness:
  "fst (execute_p2 ex_world) =
     Inr (map p2_select
       [((((ex_show 2 1 1 ex_today ''10:00:00'' 1, ex_dune), ex_hall_a), ex_nexus),
           Some \<lparr>bk_show_id = 2, bk_booked_count = 2\<rparr>),
        ((((ex_show 1 1 1 ex_today ''18:00:00'' 1, ex_dune), ex_hall_a), ex_nexus),
           Some \<lparr>bk_show_id = 1, bk_booked_count = 3\<rparr>),
        ((((ex_show 7 1 1 ex_today ''21:00:00'' 1, ex_dune), ex_hall_a), ex_nexus), None)])
   \<and> available_seats (map p2_select
       [((((ex_show 2 1 1 ex_today ''10:00:00'' 1, ex_dune), ex_hall_a), ex_nexus),
           Some \<lparr>bk_show_id = 2, bk_booked_count = 2\<rparr>),
        ((((ex_show 1 1 1 ex_today ''18:00:00'' 1, ex_dune), ex_hall_a), ex_nexus),
           Some \<lparr>bk_show_id = 1, bk_booked_count = 3\<rparr>),
        ((((ex_show 7 1 1 ex_today ''21:00:00'' 1, ex_dune), ex_hall_a), ex_nexus), None)] ! 1)
      = SqlInteger (50 - 3)
   \<and> distinct (confirmed_seat_ids ex_bookings ex_booking_seats 1)
   \<and> card (set (confirmed_seat_ids ex_bookings ex_booking_seats 1)) = 3
   \<and> filter (\<lambda>b. b_show_id b = 7 \<and> b_booking_status b = ''Confirmed'') ex_bookings = []
   \<and> available_seats (map p2_select
       [((((ex_show 2 1 1 ex_today ''10:00:00'' 1, ex_dune), ex_hall_a), ex_nexus),
           Some \<lparr>bk_show_id = 2, bk_booked_count = 2\<rparr>),
        ((((ex_show 1 1 1 ex_today ''18:00:00'' 1, ex_dune), ex_hall_a), ex_nexus),
           Some \<lparr>bk_show_id = 1, bk_booked_count = 3\<rparr>),
        ((((ex_show 7 1 1 ex_today ''21:00:00'' 1, ex_dune), ex_hall_a), ex_nexus), None)] ! 2)
      = SqlInteger 50
   \<and> fst (execute_p2 ex_low_world) =
       Inr (map p2_select
         [((((ex_show 1 1 1 ex_today ''18:00:00'' 1, ex_dune), ex_low_hall), ex_nexus),
             Some \<lparr>bk_show_id = 1, bk_booked_count = 1\<rparr>)])
   \<and> available_seats (map p2_select
         [((((ex_show 1 1 1 ex_today ''18:00:00'' 1, ex_dune), ex_low_hall), ex_nexus),
             Some \<lparr>bk_show_id = 1, bk_booked_count = 1\<rparr>)] ! 0)
      = SqlReal (- (2 ^ 63)) 1"
proof -
  let ?js = "[((((ex_show 2 1 1 ex_today ''10:00:00'' 1, ex_dune), ex_hall_a), ex_nexus),
           Some \<lparr>bk_show_id = 2, bk_booked_count = 2\<rparr>),
        ((((ex_show 1 1 1 ex_today ''18:00:00'' 1, ex_dune), ex_hall_a), ex_nexus),
           Some \<lparr>bk_show_id = 1, bk_booked_count = 3\<rparr>),
        ((((ex_show 7 1 1 ex_today ''21:00:00'' 1, ex_dune), ex_hall_a), ex_nexus), None)]"
  let ?ls = "[((((ex_show 1 1 1 ex_today ''18:00:00'' 1, ex_dune), ex_low_hall), ex_nexus),
             Some \<lparr>bk_show_id = 1, bk_booked_count = 1\<rparr>)]"
  have js: "?js = p2_sorted ex_shows [ex_dune, ex_old] [ex_hall_a, ex_hall_b] [ex_nexus, ex_inox]
                    ex_bookings ex_booking_seats (today ex_world)"
    by (simp add: ex_tables(2) ex_sorted)
  have ls: "?ls = p2_sorted [ex_show 1 1 1 ex_today ''18:00:00'' 1] [ex_dune] [ex_low_hall] [ex_nexus]
      [\<lparr>b_booking_id = 1, b_show_id = 1, b_booking_status = ''Confirmed''\<rparr>]
      [\<lparr>bs_booking_id = 1, bs_seat_id = Some 1\<rparr>] (today ex_low_world)"
    by (simp add: ex_low_tables(2) ex_low_sorted)
  note t = available_seats_counts_attachments [OF ex_tables(1) ex_tables(3-8) js]
  note u = available_seats_counts_attachments [OF ex_low_tables(1) ex_low_tables(3-8) ls]
  from t have e: "fst (execute_p2 ex_world) = Inr (map p2_select ?js)" by blast
  from u have el: "fst (execute_p2 ex_low_world) = Inr (map p2_select ?ls)" by blast
  have id1: "s_show_id (ex_show 1 1 1 ex_today ''18:00:00'' 1) = 1"
    and id7: "s_show_id (ex_show 7 1 1 ex_today ''21:00:00'' 1) = 7"
    by (simp_all add: ex_show_def)
  have cap: "h_seating_capacity ex_hall_a = 50" by (simp add: ex_hall_a_def)
  have lcap: "h_seating_capacity ex_low_hall = - (2 ^ 63)" by (simp add: ex_low_hall_def)
  have d: "distinct (confirmed_seat_ids ex_bookings ex_booking_seats 1)"
    by (simp add: ex_seat_ids)
  have c3: "card (set (confirmed_seat_ids ex_bookings ex_booking_seats 1)) = 3"
    using d by (simp add: distinct_card ex_seat_ids)
  have len1: "int (length (confirmed_seat_ids ex_bookings ex_booking_seats 1)) = 3"
    by (simp add: ex_seat_ids)
  have nb: "\<forall>b\<in>set ex_bookings. b_show_id b = 7 \<longrightarrow> b_booking_status b \<noteq> ''Confirmed''"
    by (simp add: ex_bookings_def)
  have nf: "filter (\<lambda>b. b_show_id b = 7 \<and> b_booking_status b = ''Confirmed'') ex_bookings = []"
    by (simp add: ex_bookings_def)
  have len7: "int (length (confirmed_seat_ids ex_bookings ex_booking_seats 7)) = 0"
    using confirmed_seat_ids_none [OF nb, of ex_booking_seats] by simp
  have lenl: "int (length (confirmed_seat_ids
      [\<lparr>b_booking_id = 1, b_show_id = 1, b_booking_status = ''Confirmed''\<rparr>]
      [\<lparr>bs_booking_id = 1, bs_seat_id = Some 1\<rparr>] 1)) = 1"
    by code_simp
  note q = t [THEN conjunct2, THEN conjunct2, THEN conjunct2, rule_format]
  note ql = u [THEN conjunct2, THEN conjunct2, THEN conjunct2, rule_format]
  have s1: "1 < length ?js"
    and x1: "?js ! 1 = ((((ex_show 1 1 1 ex_today ''18:00:00'' 1, ex_dune), ex_hall_a), ex_nexus),
           Some \<lparr>bk_show_id = 1, bk_booked_count = 3\<rparr>)"
    by simp_all
  have in1: "- (2 ^ 63)
              \<le> h_seating_capacity ex_hall_a
                  - int (length (confirmed_seat_ids ex_bookings ex_booking_seats
                      (s_show_id (ex_show 1 1 1 ex_today ''18:00:00'' 1))))
            \<and> h_seating_capacity ex_hall_a
                  - int (length (confirmed_seat_ids ex_bookings ex_booking_seats
                      (s_show_id (ex_show 1 1 1 ex_today ''18:00:00'' 1)))) < 2 ^ 63"
    unfolding id1 cap len1 by simp
  from q [OF s1 x1, THEN conjunct1, THEN mp, OF in1, THEN conjunct1]
  have a1: "available_seats (map p2_select ?js ! 1) = SqlInteger (50 - 3)"
    unfolding id1 cap len1 .
  have s2: "2 < length ?js"
    and x2: "?js ! 2 = ((((ex_show 7 1 1 ex_today ''21:00:00'' 1, ex_dune), ex_hall_a), ex_nexus), None)"
    by simp_all
  have in7: "- (2 ^ 63)
              \<le> h_seating_capacity ex_hall_a
                  - int (length (confirmed_seat_ids ex_bookings ex_booking_seats
                      (s_show_id (ex_show 7 1 1 ex_today ''21:00:00'' 1))))
            \<and> h_seating_capacity ex_hall_a
                  - int (length (confirmed_seat_ids ex_bookings ex_booking_seats
                      (s_show_id (ex_show 7 1 1 ex_today ''21:00:00'' 1)))) < 2 ^ 63"
    unfolding id7 cap len7 by simp
  have nb7: "\<forall>b\<in>set ex_bookings. b_show_id b = s_show_id (ex_show 7 1 1 ex_today ''21:00:00'' 1)
               \<longrightarrow> b_booking_status b \<noteq> ''Confirmed''"
    unfolding id7 by (rule nb)
  from q [OF s2 x2, THEN conjunct1, THEN mp, OF in7, THEN conjunct2, THEN conjunct2, THEN mp, OF nb7]
  have a7: "available_seats (map p2_select ?js ! 2) = SqlInteger 50"
    unfolding cap .
  have s0: "0 < length ?ls"
    and x0: "?ls ! 0 = ((((ex_show 1 1 1 ex_today ''18:00:00'' 1, ex_dune), ex_low_hall), ex_nexus),
             Some \<lparr>bk_show_id = 1, bk_booked_count = 1\<rparr>)"
    by simp_all
  have outl: "\<not> (- (2 ^ 63)
                   \<le> h_seating_capacity ex_low_hall
                       - int (length (confirmed_seat_ids
      [\<lparr>b_booking_id = 1, b_show_id = 1, b_booking_status = ''Confirmed''\<rparr>]
      [\<lparr>bs_booking_id = 1, bs_seat_id = Some 1\<rparr>] (s_show_id (ex_show 1 1 1 ex_today ''18:00:00'' 1))))
                 \<and> h_seating_capacity ex_low_hall
                       - int (length (confirmed_seat_ids
      [\<lparr>b_booking_id = 1, b_show_id = 1, b_booking_status = ''Confirmed''\<rparr>]
      [\<lparr>bs_booking_id = 1, bs_seat_id = Some 1\<rparr>] (s_show_id (ex_show 1 1 1 ex_today ''18:00:00'' 1)))) < 2 ^ 63)"
    unfolding id1 lcap lenl by simp
  from ql [OF s0 x0, THEN conjunct2, THEN mp, OF outl]
  have al: "available_seats (map p2_select ?ls ! 0) = SqlReal (- (2 ^ 63)) 1"
    unfolding id1 lcap lenl .
  from e a1 d c3 nf a7 el al show ?thesis by (intro conjI)
qed

section \<open>Availability Reporter: the empty result\<close>

text \<open>
  Claim C9. A P2 query that runs and returns no row is not an error: the Reporter
  prints the "No shows found" line, then its "passed" line, and returns true. The line
  is printed in this case only: with rows, the Reporter prints the table and also
  returns true; when the query fails, because one of its tables is not there, the
  exception leaves the Reporter with the message that names the first missing table
  of the FROM clause, and the Reporter prints neither line and returns nothing.
\<close>

theorem empty_result_not_error:
  assumes "db_file w = Some st"
  shows "(run_p2 st (today w) = Inr [] \<longrightarrow>
            test_p2_query float_str w =
              (Inr True,
               w\<lparr>trace := trace w @ [Connect, Execute PragmaForeignKeysOn,
                  Print (''Running P2 query: Shows at '' @ quoted ''PVR: Nexus'' @ '' for today...''),
                  Execute P2Query, Print no_shows_line, Print ''P2 query test passed.'', Close]\<rparr>))
     \<and> (\<forall>rows. run_p2 st (today w) = Inr rows \<and> rows \<noteq> [] \<longrightarrow>
            fst (test_p2_query float_str w) = Inr True
            \<and> Print no_shows_line
                 \<notin> set (drop (length (trace w)) (trace (snd (test_p2_query float_str w)))))
     \<and> (\<forall>name. run_p2 st (today w) = Inl name \<longrightarrow>
            (\<exists>rest. filter (\<lambda>n. table_count st n = None)
                      [''Show'', ''Movie'', ''Hall'', ''Theater'', ''Booking'', ''Booking_Seat'']
                    = name # rest)
            \<and> test_p2_query float_str w =
              (Inl (SqliteError (''no such table: '' @ name)),
               w\<lparr>trace := trace w @ [Connect, Execute PragmaForeignKeysOn,
                  Print (''Running P2 query: Shows at '' @ quoted ''PVR: Nexus'' @ '' for today...''),
                  Execute P2Query, Close]\<rparr>))"
proof -
  note q = test_p2_query_present [OF assms, of float_str]
  have empty: "test_p2_query float_str w =
              (Inr True,
               w\<lparr>trace := trace w @ [Connect, Execute PragmaForeignKeysOn,
                  Print (''Running P2 query: Shows at '' @ quoted ''PVR: Nexus'' @ '' for today...''),
                  Execute P2Query, Print no_shows_line, Print ''P2 query test passed.'', Close]\<rparr>)"
    if "run_p2 st (today w) = Inr []"
    using q that by (simp add: report_lines_def)
  have some: "fst (test_p2_query float_str w) = Inr True
            \<and> Print no_shows_line
                 \<notin> set (drop (length (trace w)) (trace (snd (test_p2_query float_str w))))"
    if r: "run_p2 st (today w) = Inr rows" and ne: "rows \<noteq> []" for rows
  proof -
    have "no_shows_line \<notin> set (report_lines float_str rows)"
      using ne by (rule no_shows_line_only_when_empty)
    then have "Print no_shows_line \<notin> Print ` set (report_lines float_str rows)" by auto
    moreover have "''Running P2 query: Shows at '' @ quoted ''PVR: Nexus'' @ '' for today...'' \<noteq> no_shows_line"
      by (simp add: quoted_def no_shows_line_def)
    moreover have "''P2 query test passed.'' \<noteq> no_shows_line"
      by (simp add: no_shows_line_def)
    ultimately show ?thesis using q r by auto
  qed
  have failed: "(\<exists>rest. filter (\<lambda>n. table_count st n = None)
                      [''Show'', ''Movie'', ''Hall'', ''Theater'', ''Booking'', ''Booking_Seat'']
                    = name # rest)
            \<and> test_p2_query float_str w =
              (Inl (SqliteError (''no such table: '' @ name)),
               w\<lparr>trace := trace w @ [Connect, Execute PragmaForeignKeysOn,
                  Print (''Running P2 query: Shows at '' @ quoted ''PVR: Nexus'' @ '' for today...''),
                  Execute P2Query, Close]\<rparr>)"
    if f: "run_p2 st (today w) = Inl name" for name
  proof
    show "\<exists>rest. filter (\<lambda>n. table_count st n = None)
                      [''Show'', ''Movie'', ''Hall'', ''Theater'', ''Booking'', ''Booking_Seat'']
                    = name # rest"
      using f by (rule run_p2_first_missing)
    show "test_p2_query float_str w =
              (Inl (SqliteError (''no such table: '' @ name)),
               w\<lparr>trace := trace w @ [Connect, Execute PragmaForeignKeysOn,
                  Print (''Running P2 query: Shows at '' @ quoted ''PVR: Nexus'' @ '' for today...''),
                  Execute P2Query, Close]\<rparr>)"
      using q f by simp
  qed
  from empty some failed show ?thesis by blast
qed

theorem empty_result_not_error_witness:
  "run_p2 ex_blank_store (today ex_blank_world) = Inr []
   \<and> fst (test_p2_query ex_float_str ex_blank_world) = Inr True
   \<and> trace (snd (test_p2_query ex_float_str ex_blank_world)) =
       [Connect, Execute PragmaForeignKeysOn,
        Print ''Running P2 query: Shows at 'PVR: Nexus' for today...'',
        Execute P2Query,
        Print ''  No shows found for today. (This is expected if today has no scheduled shows.)'',
        Print ''P2 query test passed.'', Close]
   \<and> fst (test_p2_query ex_float_str ex_world) = Inr True
   \<and> Print no_shows_line \<notin> set (trace (snd (test_p2_query ex_float_str ex_world)))
   \<and> run_p2 empty_store ex_today = Inl ''Show''
   \<and> fst (test_p2_query ex_float_str (ex_bare_world\<lparr>db_file := Some empty_store\<rparr>))
       = Inl (SqliteError ''no such table: Show'')
   \<and> run_p2 (ex_store\<lparr>Booking_Seat := None\<rparr>) ex_today = Inl ''Booking_Seat''
   \<and> fst (test_p2_query ex_float_str (ex_world\<lparr>db_file := Some (ex_store\<lparr>Booking_Seat := None\<rparr>)\<rparr>))
       = Inl (SqliteError ''no such table: Booking_Seat'')"
proof -
  have d0: "db_file ex_blank_world = Some ex_blank_store"
    and t0: "trace ex_blank_world = []"
    by (simp_all add: ex_blank_world_def)
  have r0: "run_p2 ex_blank_store (today ex_blank_world) = Inr []"
    by (simp add: run_p2_def ex_blank_store_def p2_rows_def p2_sorted_def p2_from_def
        inner_join_def left_join_def)
  from empty_result_not_error [OF d0, of ex_float_str] r0
  have e0: "test_p2_query ex_float_str ex_blank_world =
              (Inr True,
               ex_blank_world\<lparr>trace := trace ex_blank_world @ [Connect, Execute PragmaForeignKeysOn,
                  Print (''Running P2 query: Shows at '' @ quoted ''PVR: Nexus'' @ '' for today...''),
                  Execute P2Query, Print no_shows_line, Print ''P2 query test passed.'', Close]\<rparr>)"
    by blast
  have a: "fst (test_p2_query ex_float_str ex_blank_world) = Inr True" unfolding e0 by simp
  have b: "trace (snd (test_p2_query ex_float_str ex_blank_world)) =
       [Connect, Execute PragmaForeignKeysOn,
        Print ''Running P2 query: Shows at 'PVR: Nexus' for today...'',
        Execute P2Query,
        Print ''  No shows found for today. (This is expected if today has no scheduled shows.)'',
        Print ''P2 query test passed.'', Close]"
    unfolding e0 by (simp add: t0 quoted_def no_shows_line_def)
  have d1: "db_file ex_world = Some ex_store" and t1: "trace ex_world = []"
    by (simp_all add: ex_world_def)
  have r1: "run_p2 ex_store (today ex_world) =
       Inr (p2_rows ex_shows [ex_dune, ex_old] [ex_hall_a, ex_hall_b] [ex_nexus, ex_inox]
               ex_bookings ex_booking_seats ex_today)"
    by (simp add: run_p2_def ex_store_def ex_world_def)
  have ne: "p2_rows ex_shows [ex_dune, ex_old] [ex_hall_a, ex_hall_b] [ex_nexus, ex_inox]
               ex_bookings ex_booking_seats ex_today \<noteq> []"
    by (simp add: ex_rows)
  from empty_result_not_error [OF d1, of ex_float_str] r1 ne
  have "fst (test_p2_query ex_float_str ex_world) = Inr True
            \<and> Print no_shows_line
                 \<notin> set (drop (length (trace ex_world)) (trace (snd (test_p2_query ex_float_str ex_world))))"
    by blast
  then have c: "fst (test_p2_query ex_float_str ex_world) = Inr True"
    and d: "Print no_shows_line \<notin> set (trace (snd (test_p2_query ex_float_str ex_world)))"
    by (simp_all add: t1)
  have d2: "db_file (ex_bare_world\<lparr>db_file := Some empty_store\<rparr>) = Some empty_store" by simp
  have r2: "run_p2 empty_store ex_today = Inl ''Show''"
    by (simp add: run_p2_def empty_store_def)
  then have "run_p2 empty_store (today (ex_bare_world\<lparr>db_file := Some empty_store\<rparr>)) = Inl ''Show''"
    by (simp add: ex_bare_world_def)
  with empty_result_not_error [OF d2, of ex_float_str]
  have e: "fst (test_p2_query ex_float_str (ex_bare_world\<lparr>db_file := Some empty_store\<rparr>))
             = Inl (SqliteError ''no such table: Show'')"
    by simp
  have d3: "db_file (ex_world\<lparr>db_file := Some (ex_store\<lparr>Booking_Seat := None\<rparr>)\<rparr>)
              = Some (ex_store\<lparr>Booking_Seat := None\<rparr>)" by simp
  have r3: "run_p2 (ex_store\<lparr>Booking_Seat := None\<rparr>) ex_today = Inl ''Booking_Seat''"
    by (simp add: run_p2_def ex_store_def)
  then have "run_p2 (ex_store\<lparr>Booking_Seat := None\<rparr>)
               (today (ex_world\<lparr>db_file := Some (ex_store\<lparr>Booking_Seat := None\<rparr>)\<rparr>)) = Inl ''Booking_Seat''"
    by (simp add: ex_world_def)
  with empty_result_not_error [OF d3, of ex_float_str]
  have f: "fst (test_p2_query ex_float_str (ex_world\<lparr>db_file := Some (ex_store\<lparr>Booking_Seat := None\<rparr>)\<rparr>))
             = Inl (SqliteError ''no such table: Booking_Seat'')"
    by simp
  from r0 a b c d r2 e r3 f show ?thesis by (intro conjI)
qed

end
